theory Spec2Isabelle
  imports Complex_Main
begin

section \<open>Python values used by the scripts\<close>

subsection \<open>Floats\<close>

text \<open>
  A Python \<open>float\<close> is an IEEE binary64 number.  A finite float is modelled by the
  rational it denotes (the two signed zeros are identified: they compare equal and are both
  falsy), next to the two infinities and NaN.  Arithmetic rounds to nearest, ties to even,
  which \<open>rnd64\<close> does on rationals: 53 significant bits, least exponent \<open>-1074\<close>.
\<close>

datatype pyfloat = Fin rat | PosInf | NegInf | NaN

function bit_length :: "int \<Rightarrow> int" where
  "bit_length n = (if n \<le> 0 then 0 else 1 + bit_length (n div 2))"
  by pat_completeness auto
termination
  by (relation "measure nat") auto

declare bit_length.simps [simp del]

definition pow2 :: "int \<Rightarrow> rat" where
  "pow2 e = (if 0 \<le> e then 2 ^ nat e else 1 / 2 ^ nat (- e))"

definition round_half_even :: "rat \<Rightarrow> int" where
  "round_half_even x =
     (let f = \<lfloor>x\<rfloor>; d = x - of_int f
      in if d < 1 / 2 then f else if 1 / 2 < d then f + 1 else if even f then f else f + 1)"

text \<open>\<open>floor_log2 x\<close> is the \<open>k\<close> with \<open>2 ^ k \<le> x < 2 ^ (k + 1)\<close>, for \<open>x > 0\<close>.\<close>

definition floor_log2 :: "rat \<Rightarrow> int" where
  "floor_log2 x =
     (let (a, b) = quotient_of x;
          k = bit_length a - bit_length b
      in if pow2 k \<le> x then k else k - 1)"

definition rnd64 :: "rat \<Rightarrow> rat" where
  "rnd64 q =
     (if q = 0 then 0
      else let e = max (floor_log2 \<bar>q\<bar> - 52) (- 1074)
           in of_int (round_half_even (q / pow2 e)) * pow2 e)"

text \<open>The result of a float operation whose exact value is \<open>q\<close>: overflow gives an infinity.\<close>

definition fround :: "rat \<Rightarrow> pyfloat" where
  "fround q =
     (let r = rnd64 q
      in if r \<noteq> 0 \<and> 1024 \<le> floor_log2 \<bar>r\<bar>
         then (if 0 < r then PosInf else NegInf) else Fin r)"

fun fsign :: "pyfloat \<Rightarrow> int" where
  "fsign (Fin x) = (if 0 < x then 1 else if x < 0 then - 1 else 0)"
| "fsign PosInf = 1"
| "fsign NegInf = - 1"
| "fsign NaN = 0"

definition inf_of_sign :: "int \<Rightarrow> pyfloat" where
  "inf_of_sign s = (if 0 < s then PosInf else NegInf)"

text \<open>\<open>a * b\<close> on floats.\<close>

fun fmul :: "pyfloat \<Rightarrow> pyfloat \<Rightarrow> pyfloat" where
  "fmul NaN b = NaN"
| "fmul a NaN = NaN"
| "fmul (Fin x) (Fin y) = fround (x * y)"
| "fmul a b = (if fsign a * fsign b = 0 then NaN else inf_of_sign (fsign a * fsign b))"

text \<open>The value of \<open>a / b\<close> on floats when \<open>b\<close> is not zero.\<close>

fun fquot :: "pyfloat \<Rightarrow> pyfloat \<Rightarrow> pyfloat" where
  "fquot NaN b = NaN"
| "fquot a NaN = NaN"
| "fquot (Fin x) (Fin y) = fround (x / y)"
| "fquot (Fin x) b = Fin 0"
| "fquot a (Fin y) = inf_of_sign (fsign a * fsign (Fin y))"
| "fquot a b = NaN"

datatype py_exn =
  ValueError | TypeError | OverflowError | ZeroDivisionError | IndexError | KeyError

text \<open>\<open>a / b\<close>: Python raises \<open>ZeroDivisionError\<close> for a zero divisor.\<close>

definition fdiv :: "pyfloat \<Rightarrow> pyfloat \<Rightarrow> py_exn + pyfloat" where
  "fdiv a b = (if b = Fin 0 then Inl ZeroDivisionError else Inr (fquot a b))"

text \<open>
  \<open>round(x, 2)\<close>: the decimal with two places nearest to the exact value of \<open>x\<close> (ties to
  even), converted back to the nearest float; infinities and NaN round to themselves.
\<close>

fun py_round2 :: "pyfloat \<Rightarrow> pyfloat" where
  "py_round2 (Fin x) = fround (of_int (round_half_even (x * 100)) / 100)"
| "py_round2 f = f"

text \<open>\<open>x > 0\<close> and the truth value of a float (\<open>if x\<close>, the same as \<open>x != 0\<close>).\<close>

fun f_gt_zero :: "pyfloat \<Rightarrow> bool" where
  "f_gt_zero (Fin x) = (0 < x)"
| "f_gt_zero PosInf = True"
| "f_gt_zero f = False"

definition f_truthy :: "pyfloat \<Rightarrow> bool" where
  "f_truthy f = (f \<noteq> Fin 0)"

subsection \<open>Dynamically typed operands\<close>

text \<open>
  What a caller or a database driver can hand over where a number is expected: \<open>None\<close>, a
  float, an integer, a string that is not a number (with its text; \<open>float()\<close> raises
  \<open>ValueError\<close>) or an object with no conversion to float (with its identity;
  \<open>float()\<close> raises \<open>TypeError\<close>).
\<close>

datatype pyval = PNone | PFloat pyfloat | PInt int | PNonNumericStr string | PObject nat

text \<open>
  \<open>float(v)\<close>.  An integer is rounded to the nearest float; one that rounds beyond the
  largest float (from \<open>2 ^ 1024 - 2 ^ 970\<close> on) raises \<open>OverflowError\<close>.
\<close>

fun py_float :: "pyval \<Rightarrow> py_exn + pyfloat" where
  "py_float PNone = Inl TypeError"
| "py_float (PFloat f) = Inr f"
| "py_float (PInt n) =
     (if 2 ^ 1024 - 2 ^ 970 \<le> \<bar>n\<bar> then Inl OverflowError else Inr (Fin (rnd64 (of_int n))))"
| "py_float (PNonNumericStr s) = Inl ValueError"
| "py_float (PObject i) = Inl TypeError"

text \<open>
  \<open>a == b\<close>.  NaN is equal to nothing, not even to NaN; an integer and a float are equal
  when they denote the same number (\<open>7 == 7.0\<close>); values of different kinds are not
  equal otherwise.
\<close>

definition f_eq :: "pyfloat \<Rightarrow> pyfloat \<Rightarrow> bool" where
  "f_eq a b = (a \<noteq> NaN \<and> b \<noteq> NaN \<and> a = b)"

fun py_eq :: "pyval \<Rightarrow> pyval \<Rightarrow> bool" where
  "py_eq PNone PNone = True"
| "py_eq (PFloat a) (PFloat b) = f_eq a b"
| "py_eq (PInt m) (PInt n) = (m = n)"
| "py_eq (PInt m) (PFloat b) = (b = Fin (of_int m))"
| "py_eq (PFloat a) (PInt n) = (a = Fin (of_int n))"
| "py_eq (PNonNumericStr s) (PNonNumericStr t) = (s = t)"
| "py_eq (PObject i) (PObject j) = (i = j)"
| "py_eq a b = False"

subsection \<open>Strings\<close>

text \<open>
  A character is a code point below 256.  \<open>py_isspace\<close> holds for the characters on
  which \<open>str.isspace\<close> does: 9 to 13, 28 to 32, 133 (U+0085) and 160 (U+00A0).
  \<open>py_strip\<close> is \<open>str.strip()\<close>.  \<open>py_upper\<close> maps the ASCII lower-case letters
  as \<open>str.upper()\<close> does; the conversion only compares its result with \<open>INR\<close>, and
  no other character has \<open>I\<close>, \<open>N\<close> or \<open>R\<close> as its upper case.
\<close>

definition py_isspace :: "char \<Rightarrow> bool" where
  "py_isspace c =
     (let n = (of_char c :: int)
      in (9 \<le> n \<and> n \<le> 13) \<or> (28 \<le> n \<and> n \<le> 32) \<or> n = 133 \<or> n = 160)"

definition py_strip :: "string \<Rightarrow> string" where
  "py_strip s = rev (dropWhile py_isspace (rev (dropWhile py_isspace s)))"

definition upper_char :: "char \<Rightarrow> char" where
  "upper_char c =
     (let n = (of_char c :: int) in if 97 \<le> n \<and> n \<le> 122 then char_of (n - 32) else c)"

definition py_upper :: "string \<Rightarrow> string" where
  "py_upper s = map upper_char s"

text \<open>The truth value of an optional string: \<open>None\<close> and \<open>''\<close> are falsy.\<close>

fun truthy :: "string option \<Rightarrow> bool" where
  "truthy None = False"
| "truthy (Some s) = (s \<noteq> [])"

section \<open>The backing store\<close>

text \<open>
  The scripts read two databases through \<open>session.execute(sql, params).fetchone()\<close>.  Such a
  call raises, returns no row, or returns the first row.  The store is a record with one
  function per SQL statement, from the bound parameters to that outcome; it does not change
  during a run.  Opening and closing the session is not modelled.
\<close>

datatype 'a fetch = Raises | NoRow | Row 'a

record project_row =
  col_pn :: string
  col_extra_rate :: pyval
  col_enable :: pyval
  col_create_time :: string

record backing_store =
  sum_cost :: "string \<Rightarrow> string \<Rightarrow> pyval fetch"
  sum_cost_by_channel :: "string \<Rightarrow> string \<Rightarrow> string \<Rightarrow> pyval fetch"
  sum_cost_of_channel :: "string \<Rightarrow> string \<Rightarrow> pyval fetch"
  project_by_pn :: "string \<Rightarrow> project_row fetch"
  rate_by_symbols :: "string \<Rightarrow> string \<Rightarrow> string \<Rightarrow> pyval fetch"
  project_of_channel :: "string \<Rightarrow> (string option \<times> pyval) fetch"
  currency_config_by_pn :: "string \<Rightarrow> (string \<times> string option \<times> string) fetch"

text \<open>
  Every function below returns, next to its value, the list of statements it has executed,
  in order: an empty list says that the store was not queried.
\<close>

datatype query =
  QSumCost string string
| QSumCostByChannel string string string
| QSumCostOfChannel string string
| QProject string
| QRate string string string
| QProjectOfChannel string
| QCurrencyConfig string

section \<open>Cost lookup\<close>

text \<open>
  The three ledger sums share the body of their \<open>try\<close> block:
  \<open>cost = result[0] if result and result[0] is not None else 0.0; return float(cost)\<close>,
  with \<open>except Exception: return 0.0\<close> around the query and the conversion.
\<close>

fun float_of_sum :: "pyval fetch \<Rightarrow> pyfloat" where
  "float_of_sum Raises = Fin 0"
| "float_of_sum NoRow = Fin 0"
| "float_of_sum (Row v) =
     (if v = PNone then Fin 0
      else case py_float v of Inl e \<Rightarrow> Fin 0 | Inr f \<Rightarrow> f)"

text \<open>\<open>not campaign_id or campaign_id.strip() == ''\<close>\<close>

fun blank :: "string option \<Rightarrow> bool" where
  "blank None = True"
| "blank (Some s) = (s = [] \<or> py_strip s = [])"

fun query_campaign_cost ::
  "backing_store \<Rightarrow> string \<Rightarrow> string option \<Rightarrow> pyfloat \<times> query list" where
  "query_campaign_cost db ds None = (Fin 0, [])"
| "query_campaign_cost db ds (Some c) =
     (if blank (Some c) then (Fin 0, [])
      else (float_of_sum (sum_cost db ds c), [QSumCost ds c]))"

fun query_campaign_cost_by_channel ::
  "backing_store \<Rightarrow> string \<Rightarrow> string option \<Rightarrow> string \<Rightarrow> pyfloat \<times> query list" where
  "query_campaign_cost_by_channel db ds None ch = (Fin 0, [])"
| "query_campaign_cost_by_channel db ds (Some c) ch =
     (if blank (Some c) then (Fin 0, [])
      else (float_of_sum (sum_cost_by_channel db ds c ch), [QSumCostByChannel ds c ch]))"

definition query_channel_total_cost ::
  "backing_store \<Rightarrow> string \<Rightarrow> string \<Rightarrow> pyfloat \<times> query list" where
  "query_channel_total_cost db ds ch =
     (if blank (Some ch) then (Fin 0, [])
      else (float_of_sum (sum_cost_of_channel db ds ch), [QSumCostOfChannel ds ch]))"

section \<open>Rate and project lookup\<close>

record project_entity =
  pe_pn :: string
  pe_extra_rate :: pyfloat
  pe_enable :: pyval
  pe_create_time :: string

text \<open>
  \<open>query_project_entity\<close>: the dictionary of the newest enabled project row, its
  \<open>extra_rate\<close> converted to float (\<open>1.0\<close> for NULL); \<open>None\<close> for no row and for any
  exception.
\<close>

definition query_project_entity ::
  "backing_store \<Rightarrow> string \<Rightarrow> project_entity option \<times> query list" where
  "query_project_entity db p =
     ((case project_by_pn db p of
         Raises \<Rightarrow> None
       | NoRow \<Rightarrow> None
       | Row r \<Rightarrow>
           (if col_extra_rate r = PNone
            then Some \<lparr>pe_pn = col_pn r, pe_extra_rate = Fin 1,
                       pe_enable = col_enable r, pe_create_time = col_create_time r\<rparr>
            else case py_float (col_extra_rate r) of
                   Inl e \<Rightarrow> None
                 | Inr f \<Rightarrow> Some \<lparr>pe_pn = col_pn r, pe_extra_rate = f,
                                     pe_enable = col_enable r, pe_create_time = col_create_time r\<rparr>)),
      [QProject p])"

definition query_rate_entity ::
  "backing_store \<Rightarrow> string \<Rightarrow> string \<Rightarrow> string \<Rightarrow> pyfloat option \<times> query list" where
  "query_rate_entity db ds base symbols =
     ((case rate_by_symbols db ds base symbols of
         Raises \<Rightarrow> None
       | NoRow \<Rightarrow> None
       | Row v \<Rightarrow>
           (if v \<noteq> PNone
            then case py_float v of Inl e \<Rightarrow> None | Inr f \<Rightarrow> Some f
            else None)),
      [QRate ds base symbols])"

definition get_pn_by_channel ::
  "backing_store \<Rightarrow> string \<Rightarrow> string option \<times> query list" where
  "get_pn_by_channel db channel_code =
     ((case project_of_channel db channel_code of
         Raises \<Rightarrow> None
       | NoRow \<Rightarrow> None
       | Row r \<Rightarrow> fst r),
      [QProjectOfChannel channel_code])"

definition get_currency_by_pn ::
  "backing_store \<Rightarrow> string \<Rightarrow> string option \<times> query list" where
  "get_currency_by_pn db p =
     ((case currency_config_by_pn db p of
         Raises \<Rightarrow> None
       | NoRow \<Rightarrow> None
       | Row r \<Rightarrow> fst (snd r)),
      [QCurrencyConfig p])"

section \<open>Currency conversion\<close>

record conversion_result =
  cost_usd :: pyfloat
  currency :: "string option"
  rate :: "pyfloat option"
  extra_rate :: "pyfloat option"

definition no_conversion :: conversion_result where
  "no_conversion = \<lparr>cost_usd = Fin 0, currency = None, rate = None, extra_rate = None\<rparr>"

text \<open>\<open>extra_rate\<close> as step 1 of the conversion takes it from the project entity.\<close>

fun extra_rate_of :: "project_entity option \<Rightarrow> pyfloat" where
  "extra_rate_of None = Fin 1"
| "extra_rate_of (Some e) = pe_extra_rate e"

text \<open>The rate of step 4: the rate found, else the default \<open>78.5\<close> for INR, else none.\<close>

fun rate_or_default :: "pyfloat option \<Rightarrow> string \<Rightarrow> pyfloat option" where
  "rate_or_default (Some r) c = Some r"
| "rate_or_default None c = (if py_upper c = ''INR'' then Some (Fin (157 / 2)) else None)"

text \<open>
  Step 5, with \<open>except (ValueError, TypeError, ZeroDivisionError)\<close> around the division
  and the rounding.
\<close>

definition usd_of :: "conversion_result \<Rightarrow> pyfloat \<Rightarrow> pyfloat \<Rightarrow> py_exn + conversion_result" where
  "usd_of result extra_money r =
     (if f_truthy r \<and> r \<noteq> Fin 0
      then (case fdiv extra_money r of
              Inl e \<Rightarrow> (if e = ValueError \<or> e = TypeError \<or> e = ZeroDivisionError
                         then Inr result else Inl e)
            | Inr usd_value \<Rightarrow> Inr (result\<lparr>cost_usd := py_round2 usd_value\<rparr>))
      else Inr result)"

definition currency_to_usd_with_details ::
  "backing_store \<Rightarrow> string \<Rightarrow> pyval \<Rightarrow> string option
     \<Rightarrow> (py_exn + conversion_result) \<times> query list" where
  "currency_to_usd_with_details db ds source_money pn =
     (case pn of
        None \<Rightarrow> (Inr no_conversion, [])
      | Some p \<Rightarrow>
         (if source_money = PNone then (Inr no_conversion, [])
          else
            let (project_entity, q1) = query_project_entity db p;
                extra = extra_rate_of project_entity;
                result1 = no_conversion\<lparr>extra_rate := Some extra\<rparr>
            in (case py_float source_money of
                  Inl e \<Rightarrow>
                    ((if e = ValueError \<or> e = TypeError then Inr result1 else Inl e), q1)
                | Inr source_money_float \<Rightarrow>
                   (let extra_money = fmul source_money_float extra;
                        (cur, q2) = get_currency_by_pn db p
                    in (case cur of
                          None \<Rightarrow> (Inr result1, q1 @ q2)
                        | Some c \<Rightarrow>
                           (if c = [] then (Inr result1, q1 @ q2)
                            else
                              let result2 = result1\<lparr>currency := Some c\<rparr>;
                                  (found, q3) = query_rate_entity db ds ''USD'' c
                              in (case rate_or_default found c of
                                    None \<Rightarrow> (Inr result2, q1 @ q2 @ q3)
                                  | Some r \<Rightarrow>
                                      (usd_of (result2\<lparr>rate := Some r\<rparr>) extra_money r,
                                       q1 @ q2 @ q3))))))))"

section \<open>Campaign cost with conversion details\<close>

record cost_info = conversion_result +
  original_cost :: pyfloat

definition no_cost :: cost_info where
  "no_cost = \<lparr>cost_usd = Fin 0, currency = None, rate = None, extra_rate = None,
               original_cost = Fin 0\<rparr>"

text \<open>\<open>result.update(conversion_result)\<close>\<close>

definition update_with :: "cost_info \<Rightarrow> conversion_result \<Rightarrow> cost_info" where
  "update_with result c =
     \<lparr>cost_usd = cost_usd c, currency = currency c, rate = rate c, extra_rate = extra_rate c,
      original_cost = original_cost result\<rparr>"

text \<open>
  Both functions wrap their body in \<open>try ... except Exception: return result\<close>, where
  \<open>result\<close> already holds the original cost.
\<close>

definition calculate_campaign_cost_with_details ::
  "backing_store \<Rightarrow> string \<Rightarrow> string option \<Rightarrow> string option \<Rightarrow> cost_info \<times> query list" where
  "calculate_campaign_cost_with_details db ds campaign_id pn =
     (let (cost_amount, q1) = query_campaign_cost db ds campaign_id;
          result = no_cost\<lparr>original_cost := cost_amount\<rparr>
      in if cost_amount = Fin 0 then (result, q1)
         else
           let (conversion, q2) = currency_to_usd_with_details db ds (PFloat cost_amount) pn
           in (case conversion of
                 Inl e \<Rightarrow> (result, q1 @ q2)
               | Inr c \<Rightarrow> (update_with result c, q1 @ q2)))"

definition calculate_campaign_cost_with_channel_details ::
  "backing_store \<Rightarrow> string \<Rightarrow> string option \<Rightarrow> string \<Rightarrow> string option
     \<Rightarrow> cost_info \<times> query list" where
  "calculate_campaign_cost_with_channel_details db ds campaign_id ch pn =
     (let (cost_amount, q1) = query_campaign_cost_by_channel db ds campaign_id ch;
          result = no_cost\<lparr>original_cost := cost_amount\<rparr>
      in if cost_amount = Fin 0 then (result, q1)
         else if \<not> truthy pn then (result, q1)
         else
           let (conversion, q2) = currency_to_usd_with_details db ds (PFloat cost_amount) pn
           in (case conversion of
                 Inl e \<Rightarrow> (result, q1 @ q2)
               | Inr c \<Rightarrow> (update_with result c, q1 @ q2)))"

section \<open>The conversion of the older script\<close>

text \<open>
  The older script has its own \<open>currency_to_usd_with_details\<close> and a
  \<open>get_currency_by_pn\<close> that looks nothing up.  Its result starts as
  \<open>{'cost_usd': 0.0, 'currency': 'USD', 'rate': 1.0, 'extra_rate': 1.0}\<close>, and
  \<open>cost_usd\<close> can be set to the amount as it was passed in.
\<close>

record conversion_result_old =
  old_cost_usd :: pyval
  old_currency :: string
  old_rate :: pyfloat
  old_extra_rate :: pyfloat

definition usd_default :: conversion_result_old where
  "usd_default =
     \<lparr>old_cost_usd = PFloat (Fin 0), old_currency = ''USD'', old_rate = Fin 1,
      old_extra_rate = Fin 1\<rparr>"

definition get_currency_by_pn_old :: "string \<Rightarrow> string" where
  "get_currency_by_pn_old p = (if p = ''IN'' then ''INR'' else ''USD'')"

text \<open>\<open>source_money * extra_rate\<close> with no conversion before it.\<close>

fun py_mul :: "pyval \<Rightarrow> pyfloat \<Rightarrow> py_exn + pyfloat" where
  "py_mul (PFloat a) x = Inr (fmul a x)"
| "py_mul (PInt n) x =
     (case py_float (PInt n) of Inl e \<Rightarrow> Inl e | Inr a \<Rightarrow> Inr (fmul a x))"
| "py_mul v x = Inl TypeError"

definition currency_to_usd_with_details_old ::
  "backing_store \<Rightarrow> string \<Rightarrow> pyval \<Rightarrow> string option
     \<Rightarrow> (py_exn + conversion_result_old) \<times> query list" where
  "currency_to_usd_with_details_old db ds source_money pn =
     (case pn of
        None \<Rightarrow> (Inr usd_default, [])
      | Some p \<Rightarrow>
         (if source_money = PNone then (Inr usd_default, [])
          else
            let (project_entity, q1) = query_project_entity db p;
                extra = extra_rate_of project_entity;
                result1 = usd_default\<lparr>old_extra_rate := extra\<rparr>
            in (case py_mul source_money extra of
                  Inl e \<Rightarrow> (Inl e, q1)
                | Inr extra_money \<Rightarrow>
                   (let c = get_currency_by_pn_old p
                    in if c = [] then (Inr (result1\<lparr>old_cost_usd := source_money\<rparr>), q1)
                       else
                         let result2 = result1\<lparr>old_currency := c\<rparr>;
                             (found, q3) = query_rate_entity db ds ''USD'' c
                         in (case rate_or_default found c of
                               None \<Rightarrow>
                                 (Inr (result2\<lparr>old_cost_usd := source_money\<rparr>), q1 @ q3)
                             | Some r \<Rightarrow>
                                 (Inr (if f_truthy r \<and> r \<noteq> Fin 0
                                       then result2\<lparr>old_rate := r,
                                              old_cost_usd :=
                                                PFloat (py_round2 (fquot extra_money r))\<rparr>
                                       else result2\<lparr>old_rate := r,
                                              old_cost_usd := source_money\<rparr>),
                                  q1 @ q3))))))"

section \<open>Deduplication\<close>

text \<open>
  \<open>query_ads_backend_detail_data\<close> drops every row whose \<open>row[1]\<close> was seen before and
  appends \<open>(row[0],) + row[2:]\<close> for the others.  A row is a tuple, here the list of its
  values; \<open>row[1]\<close> raises \<open>IndexError\<close> on a tuple shorter than two.  The loop state is
  the set \<open>existed_ids\<close> and the list \<open>deduplicated_results\<close>.
\<close>

fun dedup_loop :: "'a list list \<Rightarrow> 'a set \<Rightarrow> 'a list list \<Rightarrow> py_exn + 'a list list" where
  "dedup_loop [] existed_ids deduplicated_results = Inr deduplicated_results"
| "dedup_loop ((x0 # row_id # rest) # rows) existed_ids deduplicated_results =
     (if row_id \<in> existed_ids then dedup_loop rows existed_ids deduplicated_results
      else dedup_loop rows (insert row_id existed_ids) (deduplicated_results @ [x0 # rest]))"
| "dedup_loop (row # rows) existed_ids deduplicated_results = Inl IndexError"

definition deduplicate :: "'a list list \<Rightarrow> py_exn + 'a list list" where
  "deduplicate results = dedup_loop results {} []"

text \<open>
  The two halves of the step as the specification words them: keeping the first row of each
  identifier, and projecting the identifier away.
\<close>

definition id_of :: "'a list \<Rightarrow> 'a" where
  "id_of row = row ! 1"

fun first_by_id_from :: "'a set \<Rightarrow> 'a list list \<Rightarrow> 'a list list" where
  "first_by_id_from seen [] = []"
| "first_by_id_from seen (row # rows) =
     (if id_of row \<in> seen then first_by_id_from seen rows
      else row # first_by_id_from (insert (id_of row) seen) rows)"

definition first_by_id :: "'a list list \<Rightarrow> 'a list list" where
  "first_by_id rows = first_by_id_from {} rows"

definition drop_id :: "'a list \<Rightarrow> 'a list" where
  "drop_id row = take 1 row @ drop 2 row"

section \<open>The attribution engines\<close>

subsection \<open>Computations that may raise\<close>

text \<open>
  A computation yields an exception or a value, and the statements executed up to there.
  \<open>and_then\<close> runs a second computation on the value of a first one, unless that raised.
\<close>

type_synonym 'a outcome = "(py_exn + 'a) \<times> query list"

definition returns :: "'a \<Rightarrow> 'a outcome" where
  "returns v = (Inr v, [])"

definition raises :: "py_exn \<Rightarrow> 'a outcome" where
  "raises e = (Inl e, [])"

definition and_then :: "'a outcome \<Rightarrow> ('a \<Rightarrow> 'b outcome) \<Rightarrow> 'b outcome" where
  "and_then m f =
     (case m of
        (Inl e, q) \<Rightarrow> (Inl e, q)
      | (Inr v, q) \<Rightarrow> (case f v of (r, q') \<Rightarrow> (r, q @ q')))"

text \<open>A call that cannot raise, and \<open>d[k]\<close> on a dictionary.\<close>

definition unfailing :: "'a \<times> query list \<Rightarrow> 'a outcome" where
  "unfailing m = (Inr (fst m), snd m)"

definition item :: "('k \<rightharpoonup> 'v) \<Rightarrow> 'k \<Rightarrow> 'v outcome" where
  "item d k = (case d k of None \<Rightarrow> raises KeyError | Some v \<Rightarrow> returns v)"

subsection \<open>Rows\<close>

text \<open>
  A detail row: the nine columns both queries select first, and the remaining ones as
  \<open>row_tail\<close>: the threshold for the CDAP query, \<open>pn\<close> and the threshold for the ADS
  query (after deduplication).
\<close>

record 'tail detail_row =
  row_table_name :: string
  row_dates :: string
  row_bdates :: string
  row_channel :: string
  row_source :: string
  row_campaign_id :: "string option"
  row_active :: pyval
  row_offset_days :: pyval
  row_day_recharge :: pyval
  row_tail :: 'tail

type_synonym cdap_row = "pyval detail_row"

type_synonym ads_row = "(string option \<times> pyval) detail_row"

text \<open>
  \<open>a == b\<close> on two rows as tuples: every column of \<open>a\<close> is equal to the same column of
  \<open>b\<close>; \<open>tail_eq\<close> compares the remaining columns.
\<close>

definition row_eq :: "('t \<Rightarrow> 't \<Rightarrow> bool) \<Rightarrow> 't detail_row \<Rightarrow> 't detail_row \<Rightarrow> bool" where
  "row_eq tail_eq a b =
     (row_table_name a = row_table_name b \<and> row_dates a = row_dates b \<and>
      row_bdates a = row_bdates b \<and> row_channel a = row_channel b \<and>
      row_source a = row_source b \<and> row_campaign_id a = row_campaign_id b \<and>
      py_eq (row_active a) (row_active b) \<and>
      py_eq (row_offset_days a) (row_offset_days b) \<and>
      py_eq (row_day_recharge a) (row_day_recharge b) \<and>
      tail_eq (row_tail a) (row_tail b))"

definition ads_tail_eq :: "string option \<times> pyval \<Rightarrow> string option \<times> pyval \<Rightarrow> bool" where
  "ads_tail_eq a b = (fst a = fst b \<and> py_eq (snd a) (snd b))"

text \<open>
  \<open>row == group_rows[0]\<close>.  Each row of \<open>results\<close> is an object of its own, known by
  its position in \<open>results\<close>.  A row is equal to itself, whatever it holds, and to another
  row when their columns are equal.
\<close>

definition same_record ::
  "('t \<Rightarrow> 't \<Rightarrow> bool) \<Rightarrow> nat \<times> 't detail_row \<Rightarrow> nat \<times> 't detail_row \<Rightarrow> bool" where
  "same_record tail_eq row first_row =
     (fst row = fst first_row \<or> row_eq tail_eq (snd row) (snd first_row))"

text \<open>
  An output row: \<open>row[:7]\<close>, then two pairs of cost in USD and original cost, then the
  recharge in USD and the recharge as a float.  For CDAP the first pair is the total of the
  channel and the second the cost of the group; for ADS the first pair is the cost of the
  group without the channel condition and the second the cost with it.
\<close>

record attributed_row =
  out_table_name :: string
  out_dates :: string
  out_bdates :: string
  out_channel :: string
  out_source :: string
  out_campaign_id :: "string option"
  out_active :: pyval
  out_usd_a :: pyfloat
  out_original_a :: pyfloat
  out_usd_b :: pyfloat
  out_original_b :: pyfloat
  out_recharge_usd :: pyfloat
  out_day_recharge :: pyfloat

definition reordered_row ::
  "'t detail_row \<Rightarrow> pyfloat \<Rightarrow> pyfloat \<Rightarrow> pyfloat \<Rightarrow> pyfloat \<Rightarrow> pyfloat \<Rightarrow> pyfloat
     \<Rightarrow> attributed_row" where
  "reordered_row row usd_a original_a usd_b original_b recharge_usd day_recharge =
     \<lparr>out_table_name = row_table_name row, out_dates = row_dates row,
      out_bdates = row_bdates row, out_channel = row_channel row,
      out_source = row_source row, out_campaign_id = row_campaign_id row,
      out_active = row_active row,
      out_usd_a = usd_a, out_original_a = original_a,
      out_usd_b = usd_b, out_original_b = original_b,
      out_recharge_usd = recharge_usd, out_day_recharge = day_recharge\<rparr>"

subsection \<open>The shared steps\<close>

text \<open>\<open>f"{dates}_{channel}_{campaign_id}"\<close>\<close>

definition group_key :: "'t detail_row \<Rightarrow> string" where
  "group_key row =
     row_dates row @ ''_'' @ row_channel row @ ''_'' @
     (case row_campaign_id row of None \<Rightarrow> ''None'' | Some c \<Rightarrow> c)"

text \<open>
  \<open>group_map\<close>, a dictionary from keys to lists of rows, in insertion order:
  \<open>group_map[key].append(row)\<close> after \<open>group_map[key] = []\<close> for a new key.  The
  rows are stored with their positions in \<open>results\<close>, counted from \<open>i\<close>.
\<close>

fun group_append :: "string \<Rightarrow> 'r \<Rightarrow> (string \<times> 'r list) list \<Rightarrow> (string \<times> 'r list) list" where
  "group_append key row [] = [(key, [row])]"
| "group_append key row ((k, rows) # group_map) =
     (if k = key then (k, rows @ [row]) # group_map
      else (k, rows) # group_append key row group_map)"

fun group_rows :: "'t detail_row list \<Rightarrow> nat \<Rightarrow> (string \<times> (nat \<times> 't detail_row) list) list
    \<Rightarrow> (string \<times> (nat \<times> 't detail_row) list) list" where
  "group_rows [] i group_map = group_map"
| "group_rows (row # results) i group_map =
     group_rows results (Suc i) (group_append (group_key row) (i, row) group_map)"

text \<open>
  The total cost of a channel, converted
  (\<open>if channel_total_cost > 0 and pn: ... else: ...\<close>).
\<close>

definition channel_total_info ::
  "backing_store \<Rightarrow> string \<Rightarrow> string \<Rightarrow> string option \<Rightarrow> cost_info outcome" where
  "channel_total_info db ds ch pn =
     and_then (unfailing (query_channel_total_cost db ds ch)) (\<lambda>channel_total_cost.
       if f_gt_zero channel_total_cost \<and> truthy pn
       then and_then (currency_to_usd_with_details db ds (PFloat channel_total_cost) pn)
              (\<lambda>info. returns
                 \<lparr>cost_usd = cost_usd info, currency = currency info, rate = rate info,
                  extra_rate = extra_rate info, original_cost = channel_total_cost\<rparr>)
       else returns no_cost)"

text \<open>\<open>if channel not in channel_total_cost_cache: ...\<close>\<close>

definition cache_channel_total ::
  "backing_store \<Rightarrow> string \<Rightarrow> string \<Rightarrow> string option \<Rightarrow> (string \<rightharpoonup> cost_info)
     \<Rightarrow> (string \<rightharpoonup> cost_info) outcome" where
  "cache_channel_total db ds ch pn cache =
     (case cache ch of
        Some info \<Rightarrow> returns cache
      | None \<Rightarrow> and_then (channel_total_info db ds ch pn) (\<lambda>info. returns (cache(ch \<mapsto> info))))"

text \<open>
  \<open>if channel not in channel_pn_cache: channel_pn_cache[channel] = ...\<close> followed by
  \<open>pn = channel_pn_cache[channel]\<close>: the project and the cache afterwards.
\<close>

definition cached_pn ::
  "backing_store \<Rightarrow> string \<Rightarrow> (string \<rightharpoonup> string option)
     \<Rightarrow> (string option \<times> (string \<rightharpoonup> string option)) \<times> query list" where
  "cached_pn db ch cache =
     (case cache ch of
        Some pn \<Rightarrow> ((pn, cache), [])
      | None \<Rightarrow> (let (pn, q) = get_pn_by_channel db ch in ((pn, cache(ch \<mapsto> pn)), q)))"

text \<open>
  The cost shown on a row: the cost of its group on the first record, and on the others
  zero cost with the currency, rate and extra rate of the group.
\<close>

definition allocated :: "bool \<Rightarrow> cost_info \<Rightarrow> cost_info" where
  "allocated is_first_record group_cost =
     (if is_first_record then group_cost
      else \<lparr>cost_usd = Fin 0, currency = currency group_cost, rate = rate group_cost,
            extra_rate = extra_rate group_cost, original_cost = Fin 0\<rparr>)"

text \<open>
  \<open>day_recharge_raw = row[8] if row[8] is not None else 0.0\<close> and its conversion to
  float inside \<open>try ... except (ValueError, TypeError)\<close>.
\<close>

definition day_recharge_float :: "pyval \<Rightarrow> py_exn + pyfloat" where
  "day_recharge_float v =
     (case py_float (if v \<noteq> PNone then v else PFloat (Fin 0)) of
        Inl e \<Rightarrow> (if e = ValueError \<or> e = TypeError then Inr (Fin 0) else Inl e)
      | Inr f \<Rightarrow> Inr f)"

text \<open>
  The conversion of the recharge of one row
  (\<open>if day_recharge > 0 and pn: ... else: if pn: ... else: ...\<close>).
\<close>

definition recharge_conversion ::
  "backing_store \<Rightarrow> string \<Rightarrow> pyfloat \<Rightarrow> string option \<Rightarrow> conversion_result outcome" where
  "recharge_conversion db ds day_recharge pn =
     (if f_gt_zero day_recharge \<and> truthy pn
      then currency_to_usd_with_details db ds (PFloat day_recharge) pn
      else (case pn of
              None \<Rightarrow> returns no_conversion
            | Some p \<Rightarrow>
               (if p = [] then returns no_conversion
                else
                  let (cur, q1) = get_currency_by_pn db p;
                      (project_entity, q2) = query_project_entity db p;
                      (r, q3) = (case cur of
                                   None \<Rightarrow> (None, [])
                                 | Some c \<Rightarrow> (if c = [] then (None, [])
                                              else query_rate_entity db ds ''USD'' c))
                  in (Inr \<lparr>cost_usd = Fin 0, currency = cur, rate = r,
                            extra_rate = Some (extra_rate_of project_entity)\<rparr>,
                      q1 @ q2 @ q3))))"

text \<open>\<open>group_rows[0]\<close>\<close>

definition first_of :: "'r list \<Rightarrow> 'r outcome" where
  "first_of rows = (case rows of [] \<Rightarrow> raises IndexError | row # _ \<Rightarrow> returns row)"

subsection \<open>CDAP rows\<close>

record cdap_state =
  group_costs :: "string \<rightharpoonup> cost_info"
  channel_pn_cache :: "string \<rightharpoonup> string option"
  channel_total_cost_cache :: "string \<rightharpoonup> cost_info"

definition cdap_group_step ::
  "backing_store \<Rightarrow> string \<times> (nat \<times> cdap_row) list \<Rightarrow> cdap_state \<Rightarrow> cdap_state outcome" where
  "cdap_group_step db entry st =
     and_then (first_of (map snd (snd entry))) (\<lambda>base_row.
     and_then (unfailing (cached_pn db (row_channel base_row) (channel_pn_cache st))) (\<lambda>(pn, pns).
     and_then (cache_channel_total db (row_dates base_row) (row_channel base_row) pn
                 (channel_total_cost_cache st)) (\<lambda>totals.
     and_then (unfailing (calculate_campaign_cost_with_channel_details db (row_dates base_row)
                 (row_campaign_id base_row) (row_channel base_row) pn)) (\<lambda>cost_info.
     returns \<lparr>group_costs = (group_costs st)(fst entry \<mapsto> cost_info),
              channel_pn_cache = pns, channel_total_cost_cache = totals\<rparr>))))"

fun cdap_groups_loop ::
  "backing_store \<Rightarrow> (string \<times> (nat \<times> cdap_row) list) list \<Rightarrow> cdap_state
     \<Rightarrow> cdap_state outcome" where
  "cdap_groups_loop db [] st = returns st"
| "cdap_groups_loop db (entry # entries) st =
     and_then (cdap_group_step db entry st) (\<lambda>st'. cdap_groups_loop db entries st')"

definition cdap_row_step ::
  "backing_store \<Rightarrow> (string \<times> (nat \<times> cdap_row) list) list \<Rightarrow> cdap_state \<Rightarrow> nat
     \<Rightarrow> cdap_row \<Rightarrow> (attributed_row \<times> cdap_state) outcome" where
  "cdap_row_step db group_map st i row =
     and_then (item (map_of group_map) (group_key row)) (\<lambda>rows_of_group.
     and_then (first_of rows_of_group) (\<lambda>first_row.
     and_then (item (group_costs st) (group_key row)) (\<lambda>group_cost.
     and_then (unfailing (cached_pn db (row_channel row) (channel_pn_cache st))) (\<lambda>(pn, pns).
     and_then (day_recharge_float (row_day_recharge row), []) (\<lambda>day_recharge.
     and_then (recharge_conversion db (row_dates row) day_recharge pn) (\<lambda>recharge.
     and_then (item (channel_total_cost_cache st) (row_channel row)) (\<lambda>channel_total.
     returns
       (reordered_row row (cost_usd channel_total) (original_cost channel_total)
          (cost_usd (allocated (same_record py_eq (i, row) first_row) group_cost))
          (original_cost (allocated (same_record py_eq (i, row) first_row) group_cost))
          (cost_usd recharge) day_recharge,
        st\<lparr>channel_pn_cache := pns\<rparr>))))))))"

text \<open>The loop over \<open>results\<close>, from the row at position \<open>i\<close> on.\<close>

fun cdap_rows_loop ::
  "backing_store \<Rightarrow> (string \<times> (nat \<times> cdap_row) list) list \<Rightarrow> cdap_state \<Rightarrow> nat
     \<Rightarrow> cdap_row list \<Rightarrow> attributed_row list outcome" where
  "cdap_rows_loop db group_map st i [] = returns []"
| "cdap_rows_loop db group_map st i (row # results) =
     and_then (cdap_row_step db group_map st i row) (\<lambda>(out, st').
     and_then (cdap_rows_loop db group_map st' (Suc i) results) (\<lambda>outs.
     returns (out # outs)))"

definition process_cdap_data_with_cost ::
  "backing_store \<Rightarrow> cdap_row list \<Rightarrow> attributed_row list outcome" where
  "process_cdap_data_with_cost db results =
     (if results = [] then returns []
      else
        let group_map = group_rows results 0 []
        in and_then (cdap_groups_loop db group_map
                       \<lparr>group_costs = Map.empty, channel_pn_cache = Map.empty,
                        channel_total_cost_cache = Map.empty\<rparr>)
             (\<lambda>st. cdap_rows_loop db group_map st 0 results))"

subsection \<open>ADS rows\<close>

record ads_state =
  group_costs_without_channel :: "string \<rightharpoonup> cost_info"
  group_costs_with_channel :: "string \<rightharpoonup> cost_info"
  ads_channel_total_cost_cache :: "string \<rightharpoonup> cost_info"

definition ads_group_step ::
  "backing_store \<Rightarrow> string \<times> (nat \<times> ads_row) list \<Rightarrow> ads_state \<Rightarrow> ads_state outcome" where
  "ads_group_step db entry st =
     and_then (first_of (map snd (snd entry))) (\<lambda>base_row.
     and_then (cache_channel_total db (row_dates base_row) (row_channel base_row)
                 (fst (row_tail base_row)) (ads_channel_total_cost_cache st)) (\<lambda>totals.
     and_then (unfailing (calculate_campaign_cost_with_details db (row_dates base_row)
                 (row_campaign_id base_row) (fst (row_tail base_row)))) (\<lambda>without_channel.
     and_then (unfailing (calculate_campaign_cost_with_channel_details db (row_dates base_row)
                 (row_campaign_id base_row) (row_channel base_row)
                 (fst (row_tail base_row)))) (\<lambda>with_channel.
     returns
       \<lparr>group_costs_without_channel =
          (group_costs_without_channel st)(fst entry \<mapsto> without_channel),
        group_costs_with_channel = (group_costs_with_channel st)(fst entry \<mapsto> with_channel),
        ads_channel_total_cost_cache = totals\<rparr>))))"

fun ads_groups_loop ::
  "backing_store \<Rightarrow> (string \<times> (nat \<times> ads_row) list) list \<Rightarrow> ads_state
     \<Rightarrow> ads_state outcome" where
  "ads_groups_loop db [] st = returns st"
| "ads_groups_loop db (entry # entries) st =
     and_then (ads_group_step db entry st) (\<lambda>st'. ads_groups_loop db entries st')"

definition ads_row_step ::
  "backing_store \<Rightarrow> (string \<times> (nat \<times> ads_row) list) list \<Rightarrow> ads_state \<Rightarrow> nat \<Rightarrow> ads_row
     \<Rightarrow> attributed_row outcome" where
  "ads_row_step db group_map st i row =
     and_then (item (map_of group_map) (group_key row)) (\<lambda>rows_of_group.
     and_then (first_of rows_of_group) (\<lambda>first_row.
     and_then (item (group_costs_without_channel st) (group_key row)) (\<lambda>without_channel.
     and_then (item (group_costs_with_channel st) (group_key row)) (\<lambda>with_channel.
     and_then (day_recharge_float (row_day_recharge row), []) (\<lambda>day_recharge.
     and_then (recharge_conversion db (row_dates row) day_recharge (fst (row_tail row)))
       (\<lambda>recharge.
     returns
       (reordered_row row
          (cost_usd (allocated (same_record ads_tail_eq (i, row) first_row) without_channel))
          (original_cost
             (allocated (same_record ads_tail_eq (i, row) first_row) without_channel))
          (cost_usd (allocated (same_record ads_tail_eq (i, row) first_row) with_channel))
          (original_cost
             (allocated (same_record ads_tail_eq (i, row) first_row) with_channel))
          (cost_usd recharge) day_recharge)))))))"

fun ads_rows_loop ::
  "backing_store \<Rightarrow> (string \<times> (nat \<times> ads_row) list) list \<Rightarrow> ads_state \<Rightarrow> nat
     \<Rightarrow> ads_row list \<Rightarrow> attributed_row list outcome" where
  "ads_rows_loop db group_map st i [] = returns []"
| "ads_rows_loop db group_map st i (row # results) =
     and_then (ads_row_step db group_map st i row) (\<lambda>out.
     and_then (ads_rows_loop db group_map st (Suc i) results) (\<lambda>outs.
     returns (out # outs)))"

definition process_ads_data_with_cost ::
  "backing_store \<Rightarrow> ads_row list \<Rightarrow> attributed_row list outcome" where
  "process_ads_data_with_cost db results =
     (if results = [] then returns []
      else
        let group_map = group_rows results 0 []
        in and_then (ads_groups_loop db group_map
                       \<lparr>group_costs_without_channel = Map.empty,
                        group_costs_with_channel = Map.empty,
                        ads_channel_total_cost_cache = Map.empty\<rparr>)
             (\<lambda>st. ads_rows_loop db group_map st 0 results))"

subsection \<open>What the recharge columns of an output row are computed from\<close>

text \<open>
  \<open>recharge_from_own_row db row pn out\<close>: the last two columns of \<open>out\<close> are the recharge
  of \<open>row\<close> as a float and its conversion for project \<open>pn\<close> at the dates of \<open>row\<close>:
  the result of \<open>currency_to_usd_with_details\<close> when the recharge is positive and \<open>pn\<close>
  is set, and \<open>0.0\<close> otherwise.
\<close>

definition recharge_from_own_row ::
  "backing_store \<Rightarrow> 't detail_row \<Rightarrow> string option \<Rightarrow> attributed_row \<Rightarrow> bool" where
  "recharge_from_own_row db row pn out =
     (case day_recharge_float (row_day_recharge row) of
        Inl e \<Rightarrow> False
      | Inr day_recharge \<Rightarrow>
          out_day_recharge out = day_recharge \<and>
          (if f_gt_zero day_recharge \<and> truthy pn
           then (case fst (currency_to_usd_with_details db (row_dates row)
                             (PFloat day_recharge) pn) of
                   Inl e \<Rightarrow> False
                 | Inr c \<Rightarrow> out_recharge_usd out = cost_usd c)
           else out_recharge_usd out = Fin 0))"

text \<open>The cached projects are the ones the store gives.\<close>

definition pn_cache_ok :: "backing_store \<Rightarrow> (string \<rightharpoonup> string option) \<Rightarrow> bool" where
  "pn_cache_ok db cache =
     (\<forall>ch pn. cache ch = Some pn \<longrightarrow> pn = fst (get_pn_by_channel db ch))"

section \<open>Example stores\<close>

text \<open>
  A store in which every lookup resolves: each ledger sum is 1000 (3000 for a whole
  channel), every project has the given \<open>extra_rate\<close> column, every channel belongs to
  project \<open>IN\<close>, whose currency is INR (\<open>US\<close> has USD, other projects have no currency),
  and every rate is the given one (no rate row for \<open>None\<close>).
\<close>

definition example_store :: "pyval \<Rightarrow> pyval \<Rightarrow> backing_store" where
  "example_store extra r =
     \<lparr>sum_cost = (\<lambda>ds c. Row (PFloat (Fin 1000))),
      sum_cost_by_channel = (\<lambda>ds c ch. Row (PFloat (Fin 1000))),
      sum_cost_of_channel = (\<lambda>ds ch. Row (PFloat (Fin 3000))),
      project_by_pn = (\<lambda>p. Row \<lparr>col_pn = p, col_extra_rate = extra, col_enable = PInt 1,
                                  col_create_time = ''2025-01-01''\<rparr>),
      rate_by_symbols = (\<lambda>ds base symbols. if r = PNone then NoRow else Row r),
      project_of_channel = (\<lambda>ch. Row (Some ''IN'', extra)),
      currency_config_by_pn =
        (\<lambda>p. if p = ''IN'' then Row (p, Some ''INR'', ''2025-01-01'')
             else if p = ''US'' then Row (p, Some ''USD'', ''2025-01-01'') else NoRow)\<rparr>"

text \<open>The float written \<open>1.1\<close>.\<close>

definition float_1_1 :: pyfloat where
  "float_1_1 = Fin (2476979795053773 / 2251799813685248)"

text \<open>The floats written \<open>0.12\<close>, \<open>0.38\<close> and \<open>10.003125\<close>.\<close>

definition float_0_12 :: pyfloat where
  "float_0_12 = Fin (1080863910568919 / 9007199254740992)"

definition float_0_38 :: pyfloat where
  "float_0_38 = Fin (3422735716801577 / 9007199254740992)"

definition float_10_003125 :: pyfloat where
  "float_10_003125 = Fin (2815629376408781 / 281474976710656)"

text \<open>The same store, but with both campaign sums failing.\<close>

definition failing_store :: backing_store where
  "failing_store = (example_store PNone PNone)\<lparr>sum_cost := (\<lambda>ds c. Raises),
      sum_cost_by_channel := (\<lambda>ds c ch. Raises)\<rparr>"

text \<open>
  Two rows of the ADS query (table name, id, dates, bdates, channel, source, campaign id,
  active, offset days, day recharge, pn, threshold) with different identifiers and the same
  dates.
\<close>

definition ads_query_rows :: "string list list" where
  "ads_query_rows =
     [[''trend_campaign'', ''101'', ''2025-11-11'', ''2025-11-11'', ''ch'', ''src'', ''c1'',
       ''7'', ''40'', ''800'', ''IN'', ''30''],
      [''trend_campaign'', ''102'', ''2025-11-11'', ''2025-11-12'', ''ch'', ''src'', ''c1'',
       ''5'', ''41'', ''900'', ''IN'', ''30'']]"

text \<open>The same two rows without their identifiers.\<close>

definition ads_deduplicated_rows :: "string list list" where
  "ads_deduplicated_rows =
     [[''trend_campaign'', ''2025-11-11'', ''2025-11-11'', ''ch'', ''src'', ''c1'',
       ''7'', ''40'', ''800'', ''IN'', ''30''],
      [''trend_campaign'', ''2025-11-11'', ''2025-11-12'', ''ch'', ''src'', ''c1'',
       ''5'', ''41'', ''900'', ''IN'', ''30'']]"

text \<open>
  Detail rows of one group (dates \<open>2025-11-11\<close>, channel \<open>ch\<close>, campaign \<open>c1\<close>):
  a row with a recharge of \<open>800.0\<close>, and a later row of the same group with a recharge
  of \<open>800.25\<close>; for CDAP and, with \<open>pn\<close>, for ADS.
\<close>

definition cdap_row_1 :: cdap_row where
  "cdap_row_1 =
     \<lparr>row_table_name = ''trend'', row_dates = ''2025-11-11'', row_bdates = ''2025-11-11'',
      row_channel = ''ch'', row_source = ''src'', row_campaign_id = Some ''c1'',
      row_active = PInt 7, row_offset_days = PInt 40, row_day_recharge = PFloat (Fin 800),
      row_tail = PInt 30\<rparr>"

definition cdap_row_2 :: cdap_row where
  "cdap_row_2 =
     \<lparr>row_table_name = ''trend'', row_dates = ''2025-11-11'', row_bdates = ''2025-11-12'',
      row_channel = ''ch'', row_source = ''src'', row_campaign_id = Some ''c1'',
      row_active = PInt 5, row_offset_days = PInt 41,
      row_day_recharge = PFloat (Fin (3201 / 4)), row_tail = PInt 30\<rparr>"

definition ads_row_1 :: ads_row where
  "ads_row_1 =
     \<lparr>row_table_name = ''trend_campaign'', row_dates = ''2025-11-11'',
      row_bdates = ''2025-11-11'', row_channel = ''ch'', row_source = ''src'',
      row_campaign_id = Some ''c1'', row_active = PInt 7, row_offset_days = PInt 40,
      row_day_recharge = PFloat (Fin 800), row_tail = (Some ''IN'', PInt 30)\<rparr>"

definition ads_row_2 :: ads_row where
  "ads_row_2 =
     \<lparr>row_table_name = ''trend_campaign'', row_dates = ''2025-11-11'',
      row_bdates = ''2025-11-12'', row_channel = ''ch'', row_source = ''src'',
      row_campaign_id = Some ''c1'', row_active = PInt 5, row_offset_days = PInt 41,
      row_day_recharge = PFloat (Fin (3201 / 4)), row_tail = (Some ''IN'', PInt 30)\<rparr>"

text \<open>What the rows above become, with the given group cost and recharge.\<close>

definition cdap_out :: "cdap_row \<Rightarrow> pyfloat \<Rightarrow> pyfloat \<Rightarrow> pyfloat \<Rightarrow> pyfloat \<Rightarrow> attributed_row" where
  "cdap_out row usd original recharge_usd day_recharge =
     reordered_row row (Fin (75 / 2)) (Fin 3000) usd original recharge_usd day_recharge"

definition ads_out :: "ads_row \<Rightarrow> pyfloat \<Rightarrow> pyfloat \<Rightarrow> pyfloat \<Rightarrow> pyfloat \<Rightarrow> attributed_row" where
  "ads_out row usd original recharge_usd day_recharge =
     reordered_row row usd original usd original recharge_usd day_recharge"

section \<open>Evaluation of the examples\<close>

lemma float_1_1_nearest: "float_1_1 = fround (11 / 10)"
  unfolding float_1_1_def by code_simp

lemma mul_1000: "fmul (Fin 1000) float_1_1 = Fin 1100"
  unfolding float_1_1_def by code_simp

lemma quot_80: "fquot (Fin 1100) (Fin 80) = Fin (55 / 4)"
  by code_simp

lemma round_1375: "py_round2 (Fin (55 / 4)) = Fin (55 / 4)"
  by code_simp

lemma upper_inr:
  "py_upper ''INR'' = ''INR''" "py_upper ''inr'' = ''INR''" "py_upper ''USD'' \<noteq> ''INR''"
  by code_simp+

lemma ex_project:
  "query_project_entity (example_store (PFloat x) r) p =
     (Some \<lparr>pe_pn = p, pe_extra_rate = x, pe_enable = PInt 1,
             pe_create_time = ''2025-01-01''\<rparr>, [QProject p])"
  by (simp add: query_project_entity_def example_store_def)

lemma ex_currency:
  "get_currency_by_pn (example_store x r) ''IN'' = (Some ''INR'', [QCurrencyConfig ''IN''])"
  "get_currency_by_pn (example_store x r) ''US'' = (Some ''USD'', [QCurrencyConfig ''US''])"
  "get_currency_by_pn (example_store x r) ''XX'' = (None, [QCurrencyConfig ''XX''])"
  by (simp_all add: get_currency_by_pn_def example_store_def)

lemma ex_rate:
  "query_rate_entity (example_store x (PFloat r)) ds b s = (Some r, [QRate ds b s])"
  "query_rate_entity (example_store x PNone) ds b s = (None, [QRate ds b s])"
  by (simp_all add: query_rate_entity_def example_store_def)

lemma strip_examples:
  "py_strip ''  '' = []" "py_strip ''c1'' = ''c1''" "py_isspace CHR '' ''"
  by code_simp+

lemma latin_space_examples:
  "py_isspace (CHR 0xA0)" "py_isspace (CHR 0x85)" "py_strip [CHR 0xA0, CHR 0x85] = []"
  by code_simp+

lemma float_examples_nearest:
  "float_0_12 = fround (12 / 100)" "float_0_38 = fround (38 / 100)"
  "float_10_003125 = fround (10003125 / 1000000)"
  unfolding float_0_12_def float_0_38_def float_10_003125_def by code_simp+

lemma round_examples:
  "fquot (fmul (Fin (3201 / 4)) (Fin 1)) (Fin 80) = float_10_003125"
  "py_round2 float_10_003125 = Fin 10"
  "fquot (fmul (Fin (1 / 8)) (Fin 1)) (Fin 1) = Fin (1 / 8)"
  "py_round2 (Fin (1 / 8)) = float_0_12"
  "fquot (fmul (Fin (3 / 8)) (Fin 1)) (Fin 1) = Fin (3 / 8)"
  "py_round2 (Fin (3 / 8)) = float_0_38"
  unfolding float_0_12_def float_0_38_def float_10_003125_def by code_simp+

text \<open>
  \<open>round_half_even x\<close> is the integer nearest to \<open>x\<close>, the even one of the two when
  \<open>x\<close> lies half way.
\<close>

lemma round_half_even_nearest:
  "\<bar>of_int (round_half_even x) - x\<bar> \<le> 1 / 2 \<and>
   (\<bar>of_int (round_half_even x) - x\<bar> = 1 / 2 \<longrightarrow> even (round_half_even x))"
proof -
  define f where "f = \<lfloor>x\<rfloor>"
  have lo: "of_int f \<le> x" and hi: "x < of_int f + 1"
    unfolding f_def by linarith+
  show ?thesis
    using lo hi
    by (auto simp: round_half_even_def Let_def f_def [symmetric] abs_if)
qed

lemma ex_sums:
  "query_campaign_cost (example_store x r) ds (Some ''c1'') = (Fin 1000, [QSumCost ds ''c1''])"
  "query_campaign_cost_by_channel (example_store x r) ds (Some ''c1'') ch =
     (Fin 1000, [QSumCostByChannel ds ''c1'' ch])"
  by (simp_all add: example_store_def strip_examples)

lemma quot_157: "fquot (fmul (Fin 157) (Fin 1)) (Fin (157 / 2)) = Fin 2" "py_round2 (Fin 2) = Fin 2"
  "fmul (Fin 5) (Fin 1) = Fin 5"
  by code_simp+

lemma ex_project_null:
  "query_project_entity (example_store PNone r) p =
     (Some \<lparr>pe_pn = p, pe_extra_rate = Fin 1, pe_enable = PInt 1,
             pe_create_time = ''2025-01-01''\<rparr>, [QProject p])"
  by (simp add: query_project_entity_def example_store_def)

section \<open>Blank campaign identifiers\<close>

lemma all_dropWhile_iff: "(\<forall>c\<in>set (dropWhile P s). P c) \<longleftrightarrow> (\<forall>c\<in>set s. P c)"
proof
  assume h: "\<forall>c\<in>set (dropWhile P s). P c"
  have "dropWhile P s = []"
  proof (cases "dropWhile P s")
    case Nil
    then show ?thesis .
  next
    case (Cons x xs)
    then have "\<not> P x" using hd_dropWhile [of P s] by simp
    moreover have "x \<in> set (dropWhile P s)" using Cons by simp
    ultimately show ?thesis using h by blast
  qed
  then show "\<forall>c\<in>set s. P c" by (simp add: dropWhile_eq_Nil_conv)
next
  assume "\<forall>c\<in>set s. P c"
  then show "\<forall>c\<in>set (dropWhile P s). P c" by (blast dest: set_dropWhileD)
qed

lemma strip_empty_iff: "py_strip s = [] \<longleftrightarrow> (\<forall>c\<in>set s. py_isspace c)"
proof -
  have "py_strip s = [] \<longleftrightarrow> (\<forall>c\<in>set (dropWhile py_isspace s). py_isspace c)"
    by (simp add: py_strip_def)
  then show ?thesis by (simp only: all_dropWhile_iff)
qed

lemma blank_iff:
  "blank cid \<longleftrightarrow> cid = None \<or> (\<exists>s. cid = Some s \<and> (\<forall>c\<in>set s. py_isspace c))"
  by (cases cid) (auto simp: strip_empty_iff)

section \<open>Currency conversion: properties\<close>

lemma usd_of_cases:
  "usd_of res m r =
     Inr (if r = Fin 0 then res else res\<lparr>cost_usd := py_round2 (fquot m r)\<rparr>)"
  by (simp add: usd_of_def fdiv_def f_truthy_def)

lemma example_conversion_1375:
  "currency_to_usd_with_details (example_store (PFloat float_1_1) (PFloat (Fin 80)))
          ''2025-11-11'' (PFloat (Fin 1000)) (Some ''IN'') =
     (Inr \<lparr>cost_usd = Fin (55 / 4), currency = Some ''INR'', rate = Some (Fin 80),
          extra_rate = Some float_1_1\<rparr>,
      [QProject ''IN'', QCurrencyConfig ''IN'', QRate ''2025-11-11'' ''USD'' ''INR''])"
    by (simp add: currency_to_usd_with_details_def no_conversion_def usd_of_cases Let_def
        ex_project ex_currency ex_rate mul_1000 quot_80 round_1375
        del: fmul.simps fquot.simps py_round2.simps)

text \<open>
  The conversion returns a result, raising nothing, for every amount except an integer too
  large for a float.
\<close>

lemma conversion_returns_unless_int_overflows:
  assumes "\<And>n. source_money = PInt n \<Longrightarrow> \<bar>n\<bar> < 2 ^ 1024 - 2 ^ 970"
  shows "\<exists>r. fst (currency_to_usd_with_details db ds source_money pn) = Inr r"
  using assms
  by (cases source_money)
     (auto simp: currency_to_usd_with_details_def usd_of_cases Let_def
       split: option.splits prod.splits)

section \<open>The attribution engines: properties\<close>

lemma and_then_Inr:
  "fst (and_then m f) = Inr b \<longleftrightarrow> (\<exists>a. fst m = Inr a \<and> fst (f a) = Inr b)"
  by (cases m) (auto simp: and_then_def split: sum.splits prod.splits)

lemma fst_returns [simp]: "fst (returns v) = Inr v"
  by (simp add: returns_def)

lemma fst_raises [simp]: "fst (raises e) = Inl e"
  by (simp add: raises_def)

lemma fst_unfailing [simp]: "fst (unfailing m) = Inr (fst m)"
  by (simp add: unfailing_def)

lemma fst_item: "fst (item d k) = Inr v \<longleftrightarrow> d k = Some v"
  by (simp add: item_def split: option.splits)

lemma recharge_conversion_cost:
  "fst (recharge_conversion db ds dr pn) = Inr c \<Longrightarrow>
   (if f_gt_zero dr \<and> truthy pn
    then fst (currency_to_usd_with_details db ds (PFloat dr) pn) = Inr c
    else cost_usd c = Fin 0)"
  by (auto simp: recharge_conversion_def no_conversion_def Let_def
      split: if_splits option.splits prod.splits)

lemma cached_pn_ok:
  "pn_cache_ok db cache \<Longrightarrow>
   fst (fst (cached_pn db ch cache)) = fst (get_pn_by_channel db ch) \<and>
   pn_cache_ok db (snd (fst (cached_pn db ch cache)))"
  by (auto simp: cached_pn_def pn_cache_ok_def split: option.splits prod.splits if_splits)

lemma cdap_group_step_ok:
  "fst (cdap_group_step db entry st) = Inr st' \<Longrightarrow> pn_cache_ok db (channel_pn_cache st) \<Longrightarrow>
   pn_cache_ok db (channel_pn_cache st')"
  by (auto simp: cdap_group_step_def and_then_Inr case_prod_beta cached_pn_ok)

lemma cdap_groups_loop_ok:
  "fst (cdap_groups_loop db entries st) = Inr st' \<Longrightarrow> pn_cache_ok db (channel_pn_cache st) \<Longrightarrow>
   pn_cache_ok db (channel_pn_cache st')"
  by (induction entries arbitrary: st) (auto simp: and_then_Inr dest: cdap_group_step_ok)

lemma cdap_row_step_ok:
  assumes "fst (cdap_row_step db group_map st i row) = Inr (out, st')"
    and "pn_cache_ok db (channel_pn_cache st)"
  shows "pn_cache_ok db (channel_pn_cache st') \<and>
         recharge_from_own_row db row (fst (get_pn_by_channel db (row_channel row))) out"
proof -
  from assms(1) obtain dr c where
    dr: "day_recharge_float (row_day_recharge row) = Inr dr" and
    c: "fst (recharge_conversion db (row_dates row) dr
          (fst (fst (cached_pn db (row_channel row) (channel_pn_cache st))))) = Inr c" and
    out: "out_recharge_usd out = cost_usd c" "out_day_recharge out = dr" and
    st': "channel_pn_cache st' = snd (fst (cached_pn db (row_channel row) (channel_pn_cache st)))"
    by (auto simp: cdap_row_step_def and_then_Inr reordered_row_def case_prod_beta)
  note ok = cached_pn_ok [OF assms(2), of "row_channel row"]
  from recharge_conversion_cost [OF c] dr out ok
  have "recharge_from_own_row db row (fst (get_pn_by_channel db (row_channel row))) out"
    by (auto simp: recharge_from_own_row_def split: if_splits)
  with ok st' show ?thesis by simp
qed

lemma cdap_rows_loop_ok:
  "fst (cdap_rows_loop db group_map st i rows) = Inr outs \<Longrightarrow>
   pn_cache_ok db (channel_pn_cache st) \<Longrightarrow>
   list_all2 (\<lambda>row out.
     recharge_from_own_row db row (fst (get_pn_by_channel db (row_channel row))) out) rows outs"
proof (induction rows arbitrary: st outs i)
  case Nil
  then show ?case by simp
next
  case (Cons row rows)
  from Cons.prems(1) obtain out st' outs' where
    step: "fst (cdap_row_step db group_map st i row) = Inr (out, st')" and
    rest: "fst (cdap_rows_loop db group_map st' (Suc i) rows) = Inr outs'" and
    outs: "outs = out # outs'"
    by (auto simp: and_then_Inr)
  from cdap_row_step_ok [OF step Cons.prems(2)] Cons.IH [OF rest] outs
  show ?case by simp
qed

lemma ads_row_step_ok:
  assumes "fst (ads_row_step db group_map st i row) = Inr out"
  shows "recharge_from_own_row db row (fst (row_tail row)) out"
proof -
  from assms obtain dr c where
    dr: "day_recharge_float (row_day_recharge row) = Inr dr" and
    c: "fst (recharge_conversion db (row_dates row) dr (fst (row_tail row))) = Inr c" and
    out: "out_recharge_usd out = cost_usd c" "out_day_recharge out = dr"
    by (auto simp: ads_row_step_def and_then_Inr reordered_row_def)
  from recharge_conversion_cost [OF c] dr out
  show ?thesis
    by (auto simp: recharge_from_own_row_def split: if_splits)
qed

lemma ads_rows_loop_ok:
  "fst (ads_rows_loop db group_map st i rows) = Inr outs \<Longrightarrow>
   list_all2 (\<lambda>row out. recharge_from_own_row db row (fst (row_tail row)) out) rows outs"
proof (induction rows arbitrary: outs i)
  case Nil
  then show ?case by simp
next
  case (Cons row rows)
  from Cons.prems obtain out outs' where
    step: "fst (ads_row_step db group_map st i row) = Inr out" and
    rest: "fst (ads_rows_loop db group_map st (Suc i) rows) = Inr outs'" and
    outs: "outs = out # outs'"
    by (auto simp: and_then_Inr)
  from ads_row_step_ok [OF step] Cons.IH [OF rest] outs
  show ?case by simp
qed

lemma cdap_recharge:
  assumes "fst (process_cdap_data_with_cost db rows) = Inr outs"
  shows "list_all2 (\<lambda>row out.
     recharge_from_own_row db row (fst (get_pn_by_channel db (row_channel row))) out) rows outs"
proof (cases "rows = []")
  case True
  with assms show ?thesis by (simp add: process_cdap_data_with_cost_def)
next
  case False
  with assms obtain st where
    groups: "fst (cdap_groups_loop db (group_rows rows 0 [])
       \<lparr>group_costs = Map.empty, channel_pn_cache = Map.empty,
        channel_total_cost_cache = Map.empty\<rparr>) = Inr st" and
    loop: "fst (cdap_rows_loop db (group_rows rows 0 []) st 0 rows) = Inr outs"
    by (auto simp: process_cdap_data_with_cost_def and_then_Inr Let_def)
  have "pn_cache_ok db (channel_pn_cache st)"
    using cdap_groups_loop_ok [OF groups] by (simp add: pn_cache_ok_def)
  with loop show ?thesis by (rule cdap_rows_loop_ok)
qed

lemma ads_recharge:
  assumes "fst (process_ads_data_with_cost db rows) = Inr outs"
  shows "list_all2 (\<lambda>row out. recharge_from_own_row db row (fst (row_tail row)) out) rows outs"
proof (cases "rows = []")
  case True
  with assms show ?thesis by (simp add: process_ads_data_with_cost_def)
next
  case False
  with assms obtain st where
    loop: "fst (ads_rows_loop db (group_rows rows 0 []) st 0 rows) = Inr outs"
    by (auto simp: process_ads_data_with_cost_def and_then_Inr Let_def)
  then show ?thesis by (rule ads_rows_loop_ok)
qed

lemma cdap_example_run:
  "process_cdap_data_with_cost (example_store PNone (PFloat (Fin 80)))
     [cdap_row_1, cdap_row_2] =
   (Inr [cdap_out cdap_row_1 (Fin (25 / 2)) (Fin 1000) (Fin 10) (Fin 800),
         cdap_out cdap_row_2 (Fin 0) (Fin 0) (Fin 10) (Fin (3201 / 4))],
    [QProjectOfChannel ''ch'', QSumCostOfChannel ''2025-11-11'' ''ch'',
     QProject ''IN'', QCurrencyConfig ''IN'', QRate ''2025-11-11'' ''USD'' ''INR'',
     QSumCostByChannel ''2025-11-11'' ''c1'' ''ch'',
     QProject ''IN'', QCurrencyConfig ''IN'', QRate ''2025-11-11'' ''USD'' ''INR'',
     QProject ''IN'', QCurrencyConfig ''IN'', QRate ''2025-11-11'' ''USD'' ''INR'',
     QProject ''IN'', QCurrencyConfig ''IN'', QRate ''2025-11-11'' ''USD'' ''INR''])"
  by code_simp

lemma ads_example_run:
  "process_ads_data_with_cost (example_store PNone (PFloat (Fin 80)))
     [ads_row_1, ads_row_2] =
   (Inr [ads_out ads_row_1 (Fin (25 / 2)) (Fin 1000) (Fin 10) (Fin 800),
         ads_out ads_row_2 (Fin 0) (Fin 0) (Fin 10) (Fin (3201 / 4))],
    [QSumCostOfChannel ''2025-11-11'' ''ch'',
     QProject ''IN'', QCurrencyConfig ''IN'', QRate ''2025-11-11'' ''USD'' ''INR'',
     QSumCost ''2025-11-11'' ''c1'',
     QProject ''IN'', QCurrencyConfig ''IN'', QRate ''2025-11-11'' ''USD'' ''INR'',
     QSumCostByChannel ''2025-11-11'' ''c1'' ''ch'',
     QProject ''IN'', QCurrencyConfig ''IN'', QRate ''2025-11-11'' ''USD'' ''INR'',
     QProject ''IN'', QCurrencyConfig ''IN'', QRate ''2025-11-11'' ''USD'' ''INR'',
     QProject ''IN'', QCurrencyConfig ''IN'', QRate ''2025-11-11'' ''USD'' ''INR''])"
  by code_simp

lemma example_pn:
  "fst (get_pn_by_channel (example_store x r) ch) = Some ''IN''"
  by (simp add: get_pn_by_channel_def example_store_def)

lemma all_below_two: "(\<forall>i<Suc (Suc 0). P i) \<longleftrightarrow> P 0 \<and> P (Suc 0)"
  by (auto simp: less_Suc_eq)

text \<open>
  Claim C6.  When the amount is numeric and the project, a non-empty currency and a
  non-zero rate all resolve, the conversion returns
  \<open>cost_usd = round(amount * extra_rate / rate, 2)\<close> in float arithmetic, with the
  currency, the rate and the extra rate it used.  The rounding is to two decimals: for a
  finite quotient \<open>q\<close> the cost is the float nearest to \<open>n / 100\<close>, where \<open>n\<close> is
  the integer nearest to \<open>100 * q\<close>, the even one when \<open>100 * q\<close> lies half way.  For
  the amount \<open>1000\<close>, the extra rate \<open>1.1\<close> and the rate \<open>80.0\<close> the cost is exactly
  \<open>13.75\<close>; \<open>800.25\<close> at the rate \<open>80.0\<close> gives \<open>10.0\<close> (from \<open>10.003125\<close>),
  \<open>0.125\<close> at the rate \<open>1.0\<close> gives \<open>0.12\<close> and \<open>0.375\<close> gives \<open>0.38\<close>.
\<close>

theorem conversion_formula:
  "(py_float source_money = Inr amount \<and>
    fst (query_project_entity db p) = Some e \<and>
    fst (get_currency_by_pn db p) = Some c \<and> c \<noteq> [] \<and>
    fst (query_rate_entity db ds ''USD'' c) = Some r \<and> r \<noteq> Fin 0 \<longrightarrow>
    fst (currency_to_usd_with_details db ds source_money (Some p)) =
      Inr \<lparr>cost_usd = py_round2 (fquot (fmul amount (pe_extra_rate e)) r),
           currency = Some c, rate = Some r, extra_rate = Some (pe_extra_rate e)\<rparr> \<and>
    (\<forall>q. fquot (fmul amount (pe_extra_rate e)) r = Fin q \<longrightarrow>
       (\<exists>n. fst (currency_to_usd_with_details db ds source_money (Some p)) =
              Inr \<lparr>cost_usd = fround (of_int n / 100), currency = Some c, rate = Some r,
                   extra_rate = Some (pe_extra_rate e)\<rparr> \<and>
            \<bar>of_int n - q * 100\<bar> \<le> 1 / 2 \<and>
            (\<bar>of_int n - q * 100\<bar> = 1 / 2 \<longrightarrow> even n)))) \<and>
   fst (currency_to_usd_with_details (example_store (PFloat float_1_1) (PFloat (Fin 80)))
          ''2025-11-11'' (PFloat (Fin 1000)) (Some ''IN'')) =
     Inr \<lparr>cost_usd = Fin (55 / 4), currency = Some ''INR'', rate = Some (Fin 80),
          extra_rate = Some float_1_1\<rparr> \<and>
   fst (currency_to_usd_with_details (example_store (PFloat (Fin 1)) (PFloat (Fin 80)))
          ''2025-11-11'' (PFloat (Fin (3201 / 4))) (Some ''IN'')) =
     Inr \<lparr>cost_usd = Fin 10, currency = Some ''INR'', rate = Some (Fin 80),
          extra_rate = Some (Fin 1)\<rparr> \<and>
   fst (currency_to_usd_with_details (example_store (PFloat (Fin 1)) (PFloat (Fin 1)))
          ''2025-11-11'' (PFloat (Fin (1 / 8))) (Some ''IN'')) =
     Inr \<lparr>cost_usd = float_0_12, currency = Some ''INR'', rate = Some (Fin 1),
          extra_rate = Some (Fin 1)\<rparr> \<and>
   fst (currency_to_usd_with_details (example_store (PFloat (Fin 1)) (PFloat (Fin 1)))
          ''2025-11-11'' (PFloat (Fin (3 / 8))) (Some ''IN'')) =
     Inr \<lparr>cost_usd = float_0_38, currency = Some ''INR'', rate = Some (Fin 1),
          extra_rate = Some (Fin 1)\<rparr>"
proof (intro conjI impI allI)
  assume h: "py_float source_money = Inr amount \<and>
    fst (query_project_entity db p) = Some e \<and>
    fst (get_currency_by_pn db p) = Some c \<and> c \<noteq> [] \<and>
    fst (query_rate_entity db ds ''USD'' c) = Some r \<and> r \<noteq> Fin 0"
  then show res: "fst (currency_to_usd_with_details db ds source_money (Some p)) =
      Inr \<lparr>cost_usd = py_round2 (fquot (fmul amount (pe_extra_rate e)) r),
           currency = Some c, rate = Some r, extra_rate = Some (pe_extra_rate e)\<rparr>"
    by (auto simp: currency_to_usd_with_details_def no_conversion_def usd_of_cases Let_def
        split: prod.splits)
  fix q
  assume q: "fquot (fmul amount (pe_extra_rate e)) r = Fin q"
  have "fst (currency_to_usd_with_details db ds source_money (Some p)) =
          Inr \<lparr>cost_usd = fround (of_int (round_half_even (q * 100)) / 100),
               currency = Some c, rate = Some r, extra_rate = Some (pe_extra_rate e)\<rparr>"
    using res q by simp
  with round_half_even_nearest [of "q * 100"]
  show "\<exists>n. fst (currency_to_usd_with_details db ds source_money (Some p)) =
              Inr \<lparr>cost_usd = fround (of_int n / 100), currency = Some c, rate = Some r,
                   extra_rate = Some (pe_extra_rate e)\<rparr> \<and>
            \<bar>of_int n - q * 100\<bar> \<le> 1 / 2 \<and>
            (\<bar>of_int n - q * 100\<bar> = 1 / 2 \<longrightarrow> even n)"
    by blast
next
  show "fst (currency_to_usd_with_details (example_store (PFloat float_1_1) (PFloat (Fin 80)))
          ''2025-11-11'' (PFloat (Fin 1000)) (Some ''IN'')) =
     Inr \<lparr>cost_usd = Fin (55 / 4), currency = Some ''INR'', rate = Some (Fin 80),
          extra_rate = Some float_1_1\<rparr>"
    by (simp add: example_conversion_1375)
next
  show "fst (currency_to_usd_with_details (example_store (PFloat (Fin 1)) (PFloat (Fin 80)))
          ''2025-11-11'' (PFloat (Fin (3201 / 4))) (Some ''IN'')) =
     Inr \<lparr>cost_usd = Fin 10, currency = Some ''INR'', rate = Some (Fin 80),
          extra_rate = Some (Fin 1)\<rparr>"
    by (simp add: currency_to_usd_with_details_def no_conversion_def usd_of_cases Let_def
        ex_project ex_currency ex_rate round_examples
        del: fmul.simps fquot.simps py_round2.simps)
next
  show "fst (currency_to_usd_with_details (example_store (PFloat (Fin 1)) (PFloat (Fin 1)))
          ''2025-11-11'' (PFloat (Fin (1 / 8))) (Some ''IN'')) =
     Inr \<lparr>cost_usd = float_0_12, currency = Some ''INR'', rate = Some (Fin 1),
          extra_rate = Some (Fin 1)\<rparr>"
    by (simp add: currency_to_usd_with_details_def no_conversion_def usd_of_cases Let_def
        ex_project ex_currency ex_rate round_examples
        del: fmul.simps fquot.simps py_round2.simps)
next
  show "fst (currency_to_usd_with_details (example_store (PFloat (Fin 1)) (PFloat (Fin 1)))
          ''2025-11-11'' (PFloat (Fin (3 / 8))) (Some ''IN'')) =
     Inr \<lparr>cost_usd = float_0_38, currency = Some ''INR'', rate = Some (Fin 1),
          extra_rate = Some (Fin 1)\<rparr>"
    by (simp add: currency_to_usd_with_details_def no_conversion_def usd_of_cases Let_def
        ex_project ex_currency ex_rate round_examples
        del: fmul.simps fquot.simps py_round2.simps)
qed

theorem conversion_formula_witness:
  "py_float (PFloat (Fin (3201 / 4))) = Inr (Fin (3201 / 4)) \<and>
   fst (query_project_entity (example_store (PFloat (Fin 1)) (PFloat (Fin 80))) ''IN'') =
     Some \<lparr>pe_pn = ''IN'', pe_extra_rate = Fin 1, pe_enable = PInt 1,
            pe_create_time = ''2025-01-01''\<rparr> \<and>
   fst (get_currency_by_pn (example_store (PFloat (Fin 1)) (PFloat (Fin 80))) ''IN'') =
     Some ''INR'' \<and>
   fst (query_rate_entity (example_store (PFloat (Fin 1)) (PFloat (Fin 80)))
          ''2025-11-11'' ''USD'' ''INR'') = Some (Fin 80) \<and>
   fquot (fmul (Fin (3201 / 4)) (Fin 1)) (Fin 80) = float_10_003125 \<and>
   py_round2 float_10_003125 = Fin 10 \<and>
   fst (currency_to_usd_with_details (example_store (PFloat (Fin 1)) (PFloat (Fin 80)))
          ''2025-11-11'' (PFloat (Fin (3201 / 4))) (Some ''IN'')) =
     Inr \<lparr>cost_usd = Fin 10, currency = Some ''INR'', rate = Some (Fin 80),
          extra_rate = Some (Fin 1)\<rparr>"
  using conversion_formula [where source_money = "PFloat (Fin (3201 / 4))"
      and amount = "Fin (3201 / 4)"
      and db = "example_store (PFloat (Fin 1)) (PFloat (Fin 80))" and p = "''IN''"
      and e = "\<lparr>pe_pn = ''IN'', pe_extra_rate = Fin 1, pe_enable = PInt 1,
        pe_create_time = ''2025-01-01''\<rparr>"
      and c = "''INR''" and ds = "''2025-11-11''" and r = "Fin 80"]
  by (simp add: ex_project ex_currency ex_rate round_examples
      del: fmul.simps fquot.simps py_round2.simps)

text \<open>
  Claim C9.  Whenever the v1 conversion returns a record whose \<open>cost_usd\<close> is not zero,
  the currency, the rate and the extra rate of that record are all present and the rate is
  not zero.
\<close>

theorem nonzero_cost_has_metadata:
  "fst (currency_to_usd_with_details db ds source_money pn) = Inr r \<Longrightarrow>
   cost_usd r \<noteq> Fin 0 \<Longrightarrow>
   currency r \<noteq> None \<and> rate r \<noteq> None \<and> extra_rate r \<noteq> None \<and> rate r \<noteq> Some (Fin 0)"
  by (auto simp: currency_to_usd_with_details_def no_conversion_def usd_of_cases Let_def
      split: option.splits if_splits sum.splits prod.splits)

theorem nonzero_cost_has_metadata_witness:
  "fst (currency_to_usd_with_details (example_store (PFloat float_1_1) (PFloat (Fin 80)))
          ''2025-11-11'' (PFloat (Fin 1000)) (Some ''IN'')) =
     Inr \<lparr>cost_usd = Fin (55 / 4), currency = Some ''INR'', rate = Some (Fin 80),
          extra_rate = Some float_1_1\<rparr> \<and>
   cost_usd \<lparr>cost_usd = Fin (55 / 4), currency = Some ''INR'', rate = Some (Fin 80),
          extra_rate = Some float_1_1\<rparr> \<noteq> Fin 0 \<and>
   currency \<lparr>cost_usd = Fin (55 / 4), currency = Some ''INR'', rate = Some (Fin 80),
          extra_rate = Some float_1_1\<rparr> \<noteq> None \<and>
   rate \<lparr>cost_usd = Fin (55 / 4), currency = Some ''INR'', rate = Some (Fin 80),
          extra_rate = Some float_1_1\<rparr> \<noteq> None \<and>
   extra_rate \<lparr>cost_usd = Fin (55 / 4), currency = Some ''INR'', rate = Some (Fin 80),
          extra_rate = Some float_1_1\<rparr> \<noteq> None \<and>
   rate \<lparr>cost_usd = Fin (55 / 4), currency = Some ''INR'', rate = Some (Fin 80),
          extra_rate = Some float_1_1\<rparr> \<noteq> Some (Fin 0)"
  using nonzero_cost_has_metadata [of "example_store (PFloat float_1_1) (PFloat (Fin 80))"
      "''2025-11-11''" "PFloat (Fin 1000)" "Some ''IN''"
      "\<lparr>cost_usd = Fin (55 / 4), currency = Some ''INR'', rate = Some (Fin 80),
          extra_rate = Some float_1_1\<rparr>"]
  by (simp add: example_conversion_1375)

text \<open>
  Claim C2.  In every call of the v1 conversion that asks for the project's currency
  (the statement is among those executed) and gets none back (\<open>None\<close> or an empty string),
  the result has \<open>cost_usd = 0.0\<close> and no currency: the amount is not passed through.
  In the older script \<open>get_currency_by_pn\<close> always returns a currency, so no call of its
  conversion is one where the currency is unresolved.
\<close>

theorem unresolved_currency_gives_zero:
  "(QCurrencyConfig p \<in> set (snd (currency_to_usd_with_details db ds source_money (Some p))) \<and>
    \<not> truthy (fst (get_currency_by_pn db p)) \<longrightarrow>
    fst (currency_to_usd_with_details db ds source_money (Some p)) =
      Inr \<lparr>cost_usd = Fin 0, currency = None, rate = None,
           extra_rate = Some (extra_rate_of (fst (query_project_entity db p)))\<rparr>) \<and>
   get_currency_by_pn_old q \<noteq> []"
  by (auto simp: currency_to_usd_with_details_def no_conversion_def usd_of_cases Let_def
        query_project_entity_def query_rate_entity_def get_currency_by_pn_def
        get_currency_by_pn_old_def
      split: option.splits if_splits sum.splits prod.splits)

theorem unresolved_currency_gives_zero_witness:
  "QCurrencyConfig ''XX'' \<in> set (snd (currency_to_usd_with_details
       (example_store (PFloat float_1_1) (PFloat (Fin 80))) ''2025-11-11'' (PFloat (Fin 1000))
       (Some ''XX''))) \<and>
   \<not> truthy (fst (get_currency_by_pn (example_store (PFloat float_1_1) (PFloat (Fin 80))) ''XX'')) \<and>
   fst (currency_to_usd_with_details (example_store (PFloat float_1_1) (PFloat (Fin 80)))
          ''2025-11-11'' (PFloat (Fin 1000)) (Some ''XX'')) =
     Inr \<lparr>cost_usd = Fin 0, currency = None, rate = None, extra_rate = Some float_1_1\<rparr>"
  using unresolved_currency_gives_zero [of "''XX''"
      "example_store (PFloat float_1_1) (PFloat (Fin 80))" "''2025-11-11''" "PFloat (Fin 1000)"]
  by (simp add: currency_to_usd_with_details_def ex_project ex_currency Let_def
      del: fmul.simps)

text \<open>
  Claim C4 says that the conversion never raises.  For the integer amount \<open>2 ^ 1024\<close>
  the call \<open>float(source_money)\<close> raises \<open>OverflowError\<close>, which
  \<open>except (ValueError, TypeError)\<close> does not catch: the conversion raises it, whatever
  the store holds.
\<close>

theorem huge_int_amount_raises:
  "fst (currency_to_usd_with_details db ds (PInt (2 ^ 1024)) (Some p)) = Inl OverflowError"
  by (simp add: currency_to_usd_with_details_def Let_def split: prod.splits)

section \<open>Cost lookup: properties\<close>

text \<open>
  Claim C7.  \<open>query_campaign_cost\<close> and \<open>query_campaign_cost_by_channel\<close> return
  \<open>0.0\<close> and execute no statement when \<open>campaign_id\<close> is \<open>None\<close>, empty or made of
  whitespace only (the characters \<open>str.strip()\<close> removes, U+0085 and U+00A0 among
  them); they return \<open>0.0\<close> when the query gives no row or a NULL sum, and also
  when the query raises.
\<close>

theorem cost_lookup_zero_cases:
  "((campaign_id = None \<or> (\<exists>s. campaign_id = Some s \<and> (\<forall>c\<in>set s. py_isspace c))) \<longrightarrow>
      query_campaign_cost db ds campaign_id = (Fin 0, []) \<and>
      query_campaign_cost_by_channel db ds campaign_id ch = (Fin 0, [])) \<and>
   (sum_cost db2 ds2 c2 \<in> {NoRow, Row PNone, Raises} \<longrightarrow>
      fst (query_campaign_cost db2 ds2 (Some c2)) = Fin 0) \<and>
   (sum_cost_by_channel db3 ds3 c3 ch3 \<in> {NoRow, Row PNone, Raises} \<longrightarrow>
      fst (query_campaign_cost_by_channel db3 ds3 (Some c3) ch3) = Fin 0)"
proof (intro conjI impI)
  assume "campaign_id = None \<or> (\<exists>s. campaign_id = Some s \<and> (\<forall>c\<in>set s. py_isspace c))"
  then have b: "blank campaign_id" by (simp add: blank_iff)
  show "query_campaign_cost db ds campaign_id = (Fin 0, [])"
    using b by (cases campaign_id) auto
  show "query_campaign_cost_by_channel db ds campaign_id ch = (Fin 0, [])"
    using b by (cases campaign_id) auto
next
  assume "sum_cost db2 ds2 c2 \<in> {NoRow, Row PNone, Raises}"
  then show "fst (query_campaign_cost db2 ds2 (Some c2)) = Fin 0" by auto
next
  assume "sum_cost_by_channel db3 ds3 c3 ch3 \<in> {NoRow, Row PNone, Raises}"
  then show "fst (query_campaign_cost_by_channel db3 ds3 (Some c3) ch3) = Fin 0" by auto
qed

theorem cost_lookup_zero_cases_witness:
  "list_all py_isspace ''  '' \<and>
   query_campaign_cost failing_store ''2025-11-11'' (Some ''  '') = (Fin 0, []) \<and>
   query_campaign_cost_by_channel failing_store ''2025-11-11'' (Some ''  '') ''ch'' = (Fin 0, []) \<and>
   list_all py_isspace [CHR 0xA0, CHR 0x85] \<and>
   query_campaign_cost (example_store PNone PNone) ''2025-11-11'' (Some [CHR 0xA0, CHR 0x85]) =
     (Fin 0, []) \<and>
   query_campaign_cost_by_channel (example_store PNone PNone) ''2025-11-11''
     (Some [CHR 0xA0, CHR 0x85]) ''ch'' = (Fin 0, []) \<and>
   sum_cost failing_store ''2025-11-11'' ''c1'' = Raises \<and>
   query_campaign_cost failing_store ''2025-11-11'' (Some ''c1'') =
     (Fin 0, [QSumCost ''2025-11-11'' ''c1'']) \<and>
   sum_cost_by_channel failing_store ''2025-11-11'' ''c1'' ''ch'' = Raises \<and>
   query_campaign_cost_by_channel failing_store ''2025-11-11'' (Some ''c1'') ''ch'' =
     (Fin 0, [QSumCostByChannel ''2025-11-11'' ''c1'' ''ch''])"
proof -
  note spaces = cost_lookup_zero_cases [of "Some ''  ''" failing_store "''2025-11-11''" "''ch''"
      failing_store "''2025-11-11''" "''c1''" failing_store "''2025-11-11''" "''c1''" "''ch''"]
  note latin = cost_lookup_zero_cases [of "Some [CHR 0xA0, CHR 0x85]"
      "example_store PNone PNone" "''2025-11-11''" "''ch''"
      failing_store "''2025-11-11''" "''c1''" failing_store "''2025-11-11''" "''c1''" "''ch''"]
  have a: "query_campaign_cost failing_store ''2025-11-11'' (Some ''  '') = (Fin 0, []) \<and>
      query_campaign_cost_by_channel failing_store ''2025-11-11'' (Some ''  '') ''ch'' =
        (Fin 0, []) \<and>
      query_campaign_cost failing_store ''2025-11-11'' (Some ''c1'') =
        (Fin 0, [QSumCost ''2025-11-11'' ''c1'']) \<and>
      query_campaign_cost_by_channel failing_store ''2025-11-11'' (Some ''c1'') ''ch'' =
        (Fin 0, [QSumCostByChannel ''2025-11-11'' ''c1'' ''ch''])"
    using spaces by (simp add: failing_store_def example_store_def strip_examples)
  have b: "query_campaign_cost (example_store PNone PNone) ''2025-11-11''
        (Some [CHR 0xA0, CHR 0x85]) = (Fin 0, []) \<and>
      query_campaign_cost_by_channel (example_store PNone PNone) ''2025-11-11''
        (Some [CHR 0xA0, CHR 0x85]) ''ch'' = (Fin 0, [])"
    using latin by (simp add: latin_space_examples del: blank.simps query_campaign_cost.simps
        query_campaign_cost_by_channel.simps)
  show ?thesis
    using a b
    by (simp add: failing_store_def example_store_def strip_examples latin_space_examples
        del: blank.simps query_campaign_cost.simps query_campaign_cost_by_channel.simps)
qed

text \<open>
  Claim C10.  When the ledger sum is not zero and \<open>pn\<close> is \<open>None\<close>, both
  \<open>calculate_campaign_cost_with_details\<close> and
  \<open>calculate_campaign_cost_with_channel_details\<close> return \<open>cost_usd = 0.0\<close> together with
  \<open>original_cost\<close> equal to that non-zero sum.
\<close>

theorem unresolved_pn_keeps_original_cost:
  "(fst (query_campaign_cost db ds campaign_id) \<noteq> Fin 0 \<longrightarrow>
      fst (calculate_campaign_cost_with_details db ds campaign_id None) =
        \<lparr>cost_usd = Fin 0, currency = None, rate = None, extra_rate = None,
         original_cost = fst (query_campaign_cost db ds campaign_id)\<rparr>) \<and>
   (fst (query_campaign_cost_by_channel db2 ds2 campaign_id2 ch) \<noteq> Fin 0 \<longrightarrow>
      fst (calculate_campaign_cost_with_channel_details db2 ds2 campaign_id2 ch None) =
        \<lparr>cost_usd = Fin 0, currency = None, rate = None, extra_rate = None,
         original_cost = fst (query_campaign_cost_by_channel db2 ds2 campaign_id2 ch)\<rparr>)"
  by (auto simp: calculate_campaign_cost_with_details_def
        calculate_campaign_cost_with_channel_details_def currency_to_usd_with_details_def
        no_cost_def no_conversion_def update_with_def Let_def split: prod.splits)

theorem unresolved_pn_keeps_original_cost_witness:
  "fst (query_campaign_cost (example_store PNone PNone) ''2025-11-11'' (Some ''c1'')) = Fin 1000 \<and>
   Fin 1000 \<noteq> Fin 0 \<and>
   fst (calculate_campaign_cost_with_details (example_store PNone PNone) ''2025-11-11''
          (Some ''c1'') None) =
     \<lparr>cost_usd = Fin 0, currency = None, rate = None, extra_rate = None,
      original_cost = Fin 1000\<rparr> \<and>
   fst (query_campaign_cost_by_channel (example_store PNone PNone) ''2025-11-11'' (Some ''c1'')
          ''ch'') = Fin 1000 \<and>
   fst (calculate_campaign_cost_with_channel_details (example_store PNone PNone) ''2025-11-11''
          (Some ''c1'') ''ch'' None) =
     \<lparr>cost_usd = Fin 0, currency = None, rate = None, extra_rate = None,
      original_cost = Fin 1000\<rparr>"
  using unresolved_pn_keeps_original_cost [of "example_store PNone PNone" "''2025-11-11''"
      "Some ''c1''" "example_store PNone PNone" "''2025-11-11''" "Some ''c1''" "''ch''"]
  by (simp add: strip_examples example_store_def)

section \<open>The rate fallback in both scripts\<close>

text \<open>
  Claim C5 says that a conversion with no matching rate for a currency other than INR returns
  zero cost and no rate.  The older script does not: for project \<open>US\<close> (currency USD) and
  no rate row, it returns the amount \<open>5.0\<close> as \<open>cost_usd\<close>, with the rate left at
  \<open>1.0\<close>.
\<close>

theorem old_script_passes_amount_through:
  "fst (query_rate_entity (example_store PNone PNone) ''2025-11-11'' ''USD'' ''USD'') = None \<and>
   py_upper ''USD'' \<noteq> ''INR'' \<and>
   fst (currency_to_usd_with_details_old (example_store PNone PNone) ''2025-11-11''
          (PFloat (Fin 5)) (Some ''US'')) =
     Inr \<lparr>old_cost_usd = PFloat (Fin 5), old_currency = ''USD'', old_rate = Fin 1,
          old_extra_rate = Fin 1\<rparr>"
  by (simp add: currency_to_usd_with_details_old_def usd_default_def get_currency_by_pn_old_def
      ex_project_null ex_rate upper_inr quot_157 Let_def del: fmul.simps)

text \<open>
  Claim C5, amended.  With no matching rate: for INR (in any letter case) both scripts
  convert with the default rate \<open>78.5\<close>; for any other currency the v1 script returns
  \<open>cost_usd = 0.0\<close> with the currency set and no rate, and the older script returns the
  amount unconverted as \<open>cost_usd\<close>, with the currency set and the rate left at \<open>1.0\<close>.
\<close>

theorem missing_rate_policy:
  "(py_float m1 = Inr a1 \<and> fst (get_currency_by_pn db1 p1) = Some c1 \<and> c1 \<noteq> [] \<and>
    fst (query_rate_entity db1 ds1 ''USD'' c1) = None \<and> py_upper c1 = ''INR'' \<longrightarrow>
      fst (currency_to_usd_with_details db1 ds1 m1 (Some p1)) =
        Inr \<lparr>cost_usd = py_round2 (fquot (fmul a1 (extra_rate_of (fst (query_project_entity db1 p1))))
                            (Fin (157 / 2))),
             currency = Some c1, rate = Some (Fin (157 / 2)),
             extra_rate = Some (extra_rate_of (fst (query_project_entity db1 p1)))\<rparr>) \<and>
   (py_float m2 = Inr a2 \<and> fst (get_currency_by_pn db2 p2) = Some c2 \<and> c2 \<noteq> [] \<and>
    fst (query_rate_entity db2 ds2 ''USD'' c2) = None \<and> py_upper c2 \<noteq> ''INR'' \<longrightarrow>
      fst (currency_to_usd_with_details db2 ds2 m2 (Some p2)) =
        Inr \<lparr>cost_usd = Fin 0, currency = Some c2, rate = None,
             extra_rate = Some (extra_rate_of (fst (query_project_entity db2 p2)))\<rparr>) \<and>
   (py_mul m3 (extra_rate_of (fst (query_project_entity db3 p3))) = Inr a3 \<and> m3 \<noteq> PNone \<and>
    fst (query_rate_entity db3 ds3 ''USD'' (get_currency_by_pn_old p3)) = None \<and>
    py_upper (get_currency_by_pn_old p3) = ''INR'' \<longrightarrow>
      fst (currency_to_usd_with_details_old db3 ds3 m3 (Some p3)) =
        Inr \<lparr>old_cost_usd = PFloat (py_round2 (fquot a3 (Fin (157 / 2)))),
             old_currency = get_currency_by_pn_old p3, old_rate = Fin (157 / 2),
             old_extra_rate = extra_rate_of (fst (query_project_entity db3 p3))\<rparr>) \<and>
   (py_mul m4 (extra_rate_of (fst (query_project_entity db4 p4))) = Inr a4 \<and> m4 \<noteq> PNone \<and>
    fst (query_rate_entity db4 ds4 ''USD'' (get_currency_by_pn_old p4)) = None \<and>
    py_upper (get_currency_by_pn_old p4) \<noteq> ''INR'' \<longrightarrow>
      fst (currency_to_usd_with_details_old db4 ds4 m4 (Some p4)) =
        Inr \<lparr>old_cost_usd = m4, old_currency = get_currency_by_pn_old p4, old_rate = Fin 1,
             old_extra_rate = extra_rate_of (fst (query_project_entity db4 p4))\<rparr>)"
proof (intro conjI impI)
  assume "py_float m1 = Inr a1 \<and> fst (get_currency_by_pn db1 p1) = Some c1 \<and> c1 \<noteq> [] \<and>
    fst (query_rate_entity db1 ds1 ''USD'' c1) = None \<and> py_upper c1 = ''INR''"
  then show "fst (currency_to_usd_with_details db1 ds1 m1 (Some p1)) =
        Inr \<lparr>cost_usd = py_round2 (fquot (fmul a1 (extra_rate_of (fst (query_project_entity db1 p1))))
                            (Fin (157 / 2))),
             currency = Some c1, rate = Some (Fin (157 / 2)),
             extra_rate = Some (extra_rate_of (fst (query_project_entity db1 p1)))\<rparr>"
    by (auto simp: currency_to_usd_with_details_def no_conversion_def usd_of_cases Let_def
        split: prod.splits)
next
  assume "py_float m2 = Inr a2 \<and> fst (get_currency_by_pn db2 p2) = Some c2 \<and> c2 \<noteq> [] \<and>
    fst (query_rate_entity db2 ds2 ''USD'' c2) = None \<and> py_upper c2 \<noteq> ''INR''"
  then show "fst (currency_to_usd_with_details db2 ds2 m2 (Some p2)) =
        Inr \<lparr>cost_usd = Fin 0, currency = Some c2, rate = None,
             extra_rate = Some (extra_rate_of (fst (query_project_entity db2 p2)))\<rparr>"
    by (auto simp: currency_to_usd_with_details_def no_conversion_def usd_of_cases Let_def
        split: prod.splits)
next
  assume "py_mul m3 (extra_rate_of (fst (query_project_entity db3 p3))) = Inr a3 \<and> m3 \<noteq> PNone \<and>
    fst (query_rate_entity db3 ds3 ''USD'' (get_currency_by_pn_old p3)) = None \<and>
    py_upper (get_currency_by_pn_old p3) = ''INR''"
  then show "fst (currency_to_usd_with_details_old db3 ds3 m3 (Some p3)) =
        Inr \<lparr>old_cost_usd = PFloat (py_round2 (fquot a3 (Fin (157 / 2)))),
             old_currency = get_currency_by_pn_old p3, old_rate = Fin (157 / 2),
             old_extra_rate = extra_rate_of (fst (query_project_entity db3 p3))\<rparr>"
    by (auto simp: currency_to_usd_with_details_old_def usd_default_def f_truthy_def Let_def
          get_currency_by_pn_old_def
        split: prod.splits)
next
  assume "py_mul m4 (extra_rate_of (fst (query_project_entity db4 p4))) = Inr a4 \<and> m4 \<noteq> PNone \<and>
    fst (query_rate_entity db4 ds4 ''USD'' (get_currency_by_pn_old p4)) = None \<and>
    py_upper (get_currency_by_pn_old p4) \<noteq> ''INR''"
  then show "fst (currency_to_usd_with_details_old db4 ds4 m4 (Some p4)) =
        Inr \<lparr>old_cost_usd = m4, old_currency = get_currency_by_pn_old p4, old_rate = Fin 1,
             old_extra_rate = extra_rate_of (fst (query_project_entity db4 p4))\<rparr>"
    by (auto simp: currency_to_usd_with_details_old_def usd_default_def f_truthy_def Let_def
          get_currency_by_pn_old_def
        split: prod.splits)
qed

theorem missing_rate_policy_witness:
  "fst (query_rate_entity (example_store PNone PNone) ''2025-11-11'' ''USD'' ''INR'') = None \<and>
   fst (query_rate_entity (example_store PNone PNone) ''2025-11-11'' ''USD'' ''USD'') = None \<and>
   py_upper ''INR'' = ''INR'' \<and> py_upper ''USD'' \<noteq> ''INR'' \<and>
   fst (currency_to_usd_with_details (example_store PNone PNone) ''2025-11-11''
          (PFloat (Fin 157)) (Some ''IN'')) =
     Inr \<lparr>cost_usd = Fin 2, currency = Some ''INR'', rate = Some (Fin (157 / 2)),
          extra_rate = Some (Fin 1)\<rparr> \<and>
   fst (currency_to_usd_with_details (example_store PNone PNone) ''2025-11-11''
          (PFloat (Fin 157)) (Some ''US'')) =
     Inr \<lparr>cost_usd = Fin 0, currency = Some ''USD'', rate = None, extra_rate = Some (Fin 1)\<rparr> \<and>
   fst (currency_to_usd_with_details_old (example_store PNone PNone) ''2025-11-11''
          (PFloat (Fin 157)) (Some ''IN'')) =
     Inr \<lparr>old_cost_usd = PFloat (Fin 2), old_currency = ''INR'', old_rate = Fin (157 / 2),
          old_extra_rate = Fin 1\<rparr> \<and>
   fst (currency_to_usd_with_details_old (example_store PNone PNone) ''2025-11-11''
          (PFloat (Fin 157)) (Some ''US'')) =
     Inr \<lparr>old_cost_usd = PFloat (Fin 157), old_currency = ''USD'', old_rate = Fin 1,
          old_extra_rate = Fin 1\<rparr>"
  using missing_rate_policy [of "PFloat (Fin 157)" "Fin 157" "example_store PNone PNone" "''IN''"
      "''INR''" "''2025-11-11''"
      "PFloat (Fin 157)" "Fin 157" "example_store PNone PNone" "''US''" "''USD''" "''2025-11-11''"
      "PFloat (Fin 157)" "example_store PNone PNone" "''IN''" "fmul (Fin 157) (Fin 1)"
      "''2025-11-11''"
      "PFloat (Fin 157)" "example_store PNone PNone" "''US''" "fmul (Fin 157) (Fin 1)"
      "''2025-11-11''"]
  by (simp add: ex_project_null ex_currency ex_rate upper_inr quot_157 get_currency_by_pn_old_def
      del: fmul.simps fquot.simps py_round2.simps)

section \<open>Deduplication: properties\<close>

lemma dedup_loop_eq:
  "\<forall>r\<in>set rows. 2 \<le> length r \<Longrightarrow>
   dedup_loop rows ids acc = Inr (acc @ map drop_id (first_by_id_from ids rows))"
  by (induction rows ids acc rule: dedup_loop.induct) (simp_all add: drop_id_def id_of_def)

lemma ids_first_by_id_from:
  "row \<in> set (first_by_id_from seen rows) \<Longrightarrow> id_of row \<notin> seen \<and> row \<in> set rows"
  by (induction rows arbitrary: seen) (auto split: if_splits)

lemma distinct_first_by_id_from:
  "distinct (map id_of (first_by_id_from seen rows))"
proof (induction rows arbitrary: seen)
  case Nil
  then show ?case by simp
next
  case (Cons r rows)
  then show ?case by (auto dest: ids_first_by_id_from)
qed

lemma first_by_id_from_distinct:
  "distinct (map id_of rows) \<Longrightarrow> \<forall>r\<in>set rows. id_of r \<notin> seen \<Longrightarrow>
   first_by_id_from seen rows = rows"
proof (induction rows arbitrary: seen)
  case Nil
  then show ?case by simp
next
  case (Cons r rows)
  have "\<forall>r'\<in>set rows. id_of r' \<notin> insert (id_of r) seen"
    using Cons.prems by (auto simp: image_iff)
  moreover have "distinct (map id_of rows)" using Cons.prems by simp
  ultimately have "first_by_id_from (insert (id_of r) seen) rows = rows"
    by (rule Cons.IH [rotated])
  then show ?case using Cons.prems by simp
qed

lemma first_by_id_from_fixed:
  "first_by_id_from seen (first_by_id_from seen rows) = first_by_id_from seen rows"
  by (rule first_by_id_from_distinct)
     (auto simp: distinct_first_by_id_from dest: ids_first_by_id_from)

lemma first_by_id_example: "first_by_id (ads_query_rows @ ads_query_rows) = ads_query_rows"
  by (simp add: first_by_id_def ads_query_rows_def id_of_def)

text \<open>
  Claim C3 says that running the deduplication on its own output changes nothing.  The
  output has no identifier column any more, so the second run reads \<open>dates\<close> as the
  identifier: of two rows with different identifiers and the same dates the first run keeps
  both, and the second run keeps one and drops its \<open>dates\<close> column.
\<close>

theorem second_deduplication_removes_rows:
  "deduplicate ads_query_rows = Inr ads_deduplicated_rows \<and>
   deduplicate ads_deduplicated_rows =
     Inr [[''trend_campaign'', ''2025-11-11'', ''ch'', ''src'', ''c1'',
           ''7'', ''40'', ''800'', ''IN'', ''30'']] \<and>
   deduplicate ads_deduplicated_rows \<noteq> Inr ads_deduplicated_rows"
  by (simp add: deduplicate_def ads_query_rows_def ads_deduplicated_rows_def)

text \<open>
  Claim C3, amended.  On rows that each have an identifier, the deduplication returns the
  rows that come first for their identifier, in input order, each without its identifier;
  run on those kept rows (identifier still in place) it returns the same list, so nothing
  more is removed and the order is kept; and keeping the first row per identifier is
  idempotent.
\<close>

theorem deduplication_keeps_first_rows:
  "(\<forall>r\<in>set rows. 2 \<le> length r) \<longrightarrow>
     deduplicate rows = Inr (map drop_id (first_by_id rows)) \<and>
     deduplicate (first_by_id rows) = Inr (map drop_id (first_by_id rows)) \<and>
     first_by_id (first_by_id rows) = first_by_id rows"
proof
  assume wf: "\<forall>r\<in>set rows. 2 \<le> length r"
  then have wf': "\<forall>r\<in>set (first_by_id rows). 2 \<le> length r"
    by (auto simp: first_by_id_def dest: ids_first_by_id_from)
  have fixed: "first_by_id (first_by_id rows) = first_by_id rows"
    by (simp add: first_by_id_def first_by_id_from_fixed)
  have "deduplicate rows = Inr (map drop_id (first_by_id rows))"
    using dedup_loop_eq [OF wf, of "{}" "[]"] by (simp add: deduplicate_def first_by_id_def)
  moreover have "deduplicate (first_by_id rows) = Inr (map drop_id (first_by_id rows))"
    using dedup_loop_eq [OF wf', of "{}" "[]"] fixed
    by (simp add: deduplicate_def first_by_id_def)
  ultimately show "deduplicate rows = Inr (map drop_id (first_by_id rows)) \<and>
     deduplicate (first_by_id rows) = Inr (map drop_id (first_by_id rows)) \<and>
     first_by_id (first_by_id rows) = first_by_id rows"
    using fixed by simp
qed

theorem deduplication_keeps_first_rows_witness:
  "map length (ads_query_rows @ ads_query_rows) = [12, 12, 12, 12] \<and>
   first_by_id (ads_query_rows @ ads_query_rows) = ads_query_rows \<and>
   deduplicate (ads_query_rows @ ads_query_rows) = Inr (map drop_id ads_query_rows) \<and>
   deduplicate ads_query_rows = Inr (map drop_id ads_query_rows)"
  using deduplication_keeps_first_rows [of "ads_query_rows @ ads_query_rows"]
  by (simp add: first_by_id_example) (simp add: ads_query_rows_def)

text \<open>
  Claim C8 says that two rows of one group with different raw recharges have different
  converted recharges.  Two CDAP rows of one group with the recharges \<open>800.0\<close> and
  \<open>800.25\<close>, at the rate \<open>80.0\<close>, both get \<open>10.0\<close>: the conversion rounds to two
  decimals.
\<close>

theorem different_recharges_convert_equal:
  "group_key cdap_row_1 = group_key cdap_row_2 \<and>
   row_day_recharge cdap_row_1 = PFloat (Fin 800) \<and>
   row_day_recharge cdap_row_2 = PFloat (Fin (3201 / 4)) \<and>
   fst (process_cdap_data_with_cost (example_store PNone (PFloat (Fin 80)))
          [cdap_row_1, cdap_row_2]) =
     Inr [cdap_out cdap_row_1 (Fin (25 / 2)) (Fin 1000) (Fin 10) (Fin 800),
          cdap_out cdap_row_2 (Fin 0) (Fin 0) (Fin 10) (Fin (3201 / 4))] \<and>
   out_recharge_usd (cdap_out cdap_row_1 (Fin (25 / 2)) (Fin 1000) (Fin 10) (Fin 800)) =
   out_recharge_usd (cdap_out cdap_row_2 (Fin 0) (Fin 0) (Fin 10) (Fin (3201 / 4)))"
  by (simp add: cdap_example_run)
     (simp add: group_key_def cdap_row_1_def cdap_row_2_def cdap_out_def reordered_row_def)

text \<open>
  Claim C8, amended.  Whenever an engine returns, it returns one output row per input row,
  in order, and the recharge columns of each output row come from its own input row alone,
  whatever its position in its group: the raw recharge as a float, and its conversion by
  \<open>currency_to_usd_with_details\<close> at the dates of the row, for the project of the
  channel of the row (CDAP) or of the row (ADS), when the recharge is positive and that
  project is set, and \<open>0.0\<close> otherwise.  Different raw recharges are thus converted
  separately; their converted amounts need not differ.
\<close>

theorem recharge_is_per_row:
  "(fst (process_cdap_data_with_cost db rows) = Inr outs \<longrightarrow>
      length outs = length rows \<and>
      (\<forall>i<length rows.
         recharge_from_own_row db (rows ! i)
           (fst (get_pn_by_channel db (row_channel (rows ! i)))) (outs ! i))) \<and>
   (fst (process_ads_data_with_cost db2 rows2) = Inr outs2 \<longrightarrow>
      length outs2 = length rows2 \<and>
      (\<forall>i<length rows2.
         recharge_from_own_row db2 (rows2 ! i) (fst (row_tail (rows2 ! i))) (outs2 ! i)))"
proof (intro conjI impI)
  assume run: "fst (process_cdap_data_with_cost db rows) = Inr outs"
  note all = cdap_recharge [OF run]
  show "length outs = length rows"
    using all by (simp add: list_all2_lengthD)
  show "\<forall>i<length rows.
         recharge_from_own_row db (rows ! i)
           (fst (get_pn_by_channel db (row_channel (rows ! i)))) (outs ! i)"
    using all by (simp add: list_all2_conv_all_nth)
next
  assume run: "fst (process_ads_data_with_cost db2 rows2) = Inr outs2"
  note all = ads_recharge [OF run]
  show "length outs2 = length rows2"
    using all by (simp add: list_all2_lengthD)
  show "\<forall>i<length rows2.
         recharge_from_own_row db2 (rows2 ! i) (fst (row_tail (rows2 ! i))) (outs2 ! i)"
    using all by (simp add: list_all2_conv_all_nth)
qed

theorem recharge_is_per_row_witness:
  "fst (process_cdap_data_with_cost (example_store PNone (PFloat (Fin 80)))
          [cdap_row_1, cdap_row_2]) =
     Inr [cdap_out cdap_row_1 (Fin (25 / 2)) (Fin 1000) (Fin 10) (Fin 800),
          cdap_out cdap_row_2 (Fin 0) (Fin 0) (Fin 10) (Fin (3201 / 4))] \<and>
   recharge_from_own_row (example_store PNone (PFloat (Fin 80))) cdap_row_1 (Some ''IN'')
     (cdap_out cdap_row_1 (Fin (25 / 2)) (Fin 1000) (Fin 10) (Fin 800)) \<and>
   recharge_from_own_row (example_store PNone (PFloat (Fin 80))) cdap_row_2 (Some ''IN'')
     (cdap_out cdap_row_2 (Fin 0) (Fin 0) (Fin 10) (Fin (3201 / 4))) \<and>
   fst (process_ads_data_with_cost (example_store PNone (PFloat (Fin 80)))
          [ads_row_1, ads_row_2]) =
     Inr [ads_out ads_row_1 (Fin (25 / 2)) (Fin 1000) (Fin 10) (Fin 800),
          ads_out ads_row_2 (Fin 0) (Fin 0) (Fin 10) (Fin (3201 / 4))] \<and>
   recharge_from_own_row (example_store PNone (PFloat (Fin 80))) ads_row_1
     (fst (row_tail ads_row_1))
     (ads_out ads_row_1 (Fin (25 / 2)) (Fin 1000) (Fin 10) (Fin 800)) \<and>
   recharge_from_own_row (example_store PNone (PFloat (Fin 80))) ads_row_2
     (fst (row_tail ads_row_2))
     (ads_out ads_row_2 (Fin 0) (Fin 0) (Fin 10) (Fin (3201 / 4)))"
  using recharge_is_per_row [of "example_store PNone (PFloat (Fin 80))"
      "[cdap_row_1, cdap_row_2]"
      "[cdap_out cdap_row_1 (Fin (25 / 2)) (Fin 1000) (Fin 10) (Fin 800),
        cdap_out cdap_row_2 (Fin 0) (Fin 0) (Fin 10) (Fin (3201 / 4))]"
      "example_store PNone (PFloat (Fin 80))" "[ads_row_1, ads_row_2]"
      "[ads_out ads_row_1 (Fin (25 / 2)) (Fin 1000) (Fin 10) (Fin 800),
        ads_out ads_row_2 (Fin 0) (Fin 0) (Fin 10) (Fin (3201 / 4))]"]
  by (simp add: cdap_example_run ads_example_run example_pn all_below_two)

text \<open>
  Claim C1 says that exactly one row of each group, its first, carries the cost of the
  group.  The engines find the first record by \<open>row == group_rows[0]\<close>, which compares
  the columns: of two rows with the same columns both are "first".  For such a pair each
  engine queries the cost of the group once and puts it (\<open>12.5\<close> USD, \<open>1000.0\<close>
  original) on both output rows.
\<close>

theorem duplicate_rows_both_carry_cost:
  "process_cdap_data_with_cost (example_store PNone (PFloat (Fin 80)))
     [cdap_row_1, cdap_row_1] =
   (Inr [cdap_out cdap_row_1 (Fin (25 / 2)) (Fin 1000) (Fin 10) (Fin 800),
         cdap_out cdap_row_1 (Fin (25 / 2)) (Fin 1000) (Fin 10) (Fin 800)],
    [QProjectOfChannel ''ch'', QSumCostOfChannel ''2025-11-11'' ''ch'',
     QProject ''IN'', QCurrencyConfig ''IN'', QRate ''2025-11-11'' ''USD'' ''INR'',
     QSumCostByChannel ''2025-11-11'' ''c1'' ''ch'',
     QProject ''IN'', QCurrencyConfig ''IN'', QRate ''2025-11-11'' ''USD'' ''INR'',
     QProject ''IN'', QCurrencyConfig ''IN'', QRate ''2025-11-11'' ''USD'' ''INR'',
     QProject ''IN'', QCurrencyConfig ''IN'', QRate ''2025-11-11'' ''USD'' ''INR'']) \<and>
   process_ads_data_with_cost (example_store PNone (PFloat (Fin 80)))
     [ads_row_1, ads_row_1] =
   (Inr [ads_out ads_row_1 (Fin (25 / 2)) (Fin 1000) (Fin 10) (Fin 800),
         ads_out ads_row_1 (Fin (25 / 2)) (Fin 1000) (Fin 10) (Fin 800)],
    [QSumCostOfChannel ''2025-11-11'' ''ch'',
     QProject ''IN'', QCurrencyConfig ''IN'', QRate ''2025-11-11'' ''USD'' ''INR'',
     QSumCost ''2025-11-11'' ''c1'',
     QProject ''IN'', QCurrencyConfig ''IN'', QRate ''2025-11-11'' ''USD'' ''INR'',
     QSumCostByChannel ''2025-11-11'' ''c1'' ''ch'',
     QProject ''IN'', QCurrencyConfig ''IN'', QRate ''2025-11-11'' ''USD'' ''INR'',
     QProject ''IN'', QCurrencyConfig ''IN'', QRate ''2025-11-11'' ''USD'' ''INR'',
     QProject ''IN'', QCurrencyConfig ''IN'', QRate ''2025-11-11'' ''USD'' ''INR''])"
  by code_simp

end
